theory Spec2Isabelle
  imports Complex_Main "HOL-Library.Sublist"
begin

section \<open>Text\<close>

text \<open>
  A Python \<^verbatim>\<open>str\<close> is a sequence of Unicode code points; it is modelled as a list of
  natural numbers. \<open>u\<close> turns an ASCII literal into such a list; code points beyond ASCII
  are written as numbers (\<open>[0xE1]\<close> is the letter a with acute accent).
  Python's \<^verbatim>\<open>k in q\<close> on strings is \<open>sublist k q\<close>.
\<close>

type_synonym ustr = "nat list"

definition u :: "string \<Rightarrow> ustr" where
  "u s = map of_char s"

subsection \<open>The Unicode tables the string methods read\<close>

text \<open>
  \<^verbatim>\<open>str.lower\<close>, \<^verbatim>\<open>unicodedata.normalize\<close> and
  \<^verbatim>\<open>unicodedata.category\<close> belong to the Python runtime, not to this repository. They are
  algorithms driven by the Unicode Character Database, which is a parameter of the model:
  \<^item> \<open>to_lower\<close>: the full lowercase mapping of one code point (one to three code points);
  \<^item> \<open>canon_decomp\<close>: the full canonical decomposition of one code point (the code point
    itself where it has none);
  \<^item> \<open>comb_class\<close>: the canonical combining class (0 for a starter);
  \<^item> \<open>is_mn\<close>: general category Mn (nonspacing mark);
  \<^item> \<open>is_cased\<close>, \<open>is_case_ignorable\<close>: the two properties the final-sigma rule reads.
\<close>

record ucd =
  to_lower :: "nat \<Rightarrow> nat list"
  canon_decomp :: "nat \<Rightarrow> nat list"
  comb_class :: "nat \<Rightarrow> nat"
  is_mn :: "nat \<Rightarrow> bool"
  is_cased :: "nat \<Rightarrow> bool"
  is_case_ignorable :: "nat \<Rightarrow> bool"

text \<open>
  \<^verbatim>\<open>str.lower()\<close>: every code point is replaced by its lowercase mapping, except capital
  sigma (U+03A3), which becomes final sigma (U+03C2) when a cased letter precedes it and none
  follows it, case-ignorable characters being skipped on both sides, and small sigma (U+03C3)
  otherwise. \<open>seen\<close> is the text already read, last character first.
\<close>

definition final_sigma :: "ucd \<Rightarrow> ustr \<Rightarrow> ustr \<Rightarrow> bool" where
  "final_sigma U seen rest \<longleftrightarrow>
     (case dropWhile (is_case_ignorable U) seen of [] \<Rightarrow> False | c # _ \<Rightarrow> is_cased U c) \<and>
     (case dropWhile (is_case_ignorable U) rest of [] \<Rightarrow> True | c # _ \<Rightarrow> \<not> is_cased U c)"

fun lower_from :: "ucd \<Rightarrow> ustr \<Rightarrow> ustr \<Rightarrow> ustr" where
  "lower_from U seen [] = []"
| "lower_from U seen (c # cs) =
     (if c = 0x3A3 then [if final_sigma U seen cs then 0x3C2 else 0x3C3] else to_lower U c)
     @ lower_from U (c # seen) cs"

definition str_lower :: "ucd \<Rightarrow> ustr \<Rightarrow> ustr" where
  "str_lower U s = lower_from U [] s"

text \<open>
  \<^verbatim>\<open>unicodedata.normalize("NFD", s)\<close>: every code point is replaced by its full canonical
  decomposition, then every run of non-starters is sorted by combining class, stably.
  \<open>canon_insert\<close> puts one more character in front of an ordered text: a non-starter moves
  right past the non-starters of smaller class.
\<close>

fun canon_insert :: "ucd \<Rightarrow> nat \<Rightarrow> ustr \<Rightarrow> ustr" where
  "canon_insert U c [] = [c]"
| "canon_insert U c (d # ds) =
     (if 0 < comb_class U c \<and> 0 < comb_class U d \<and> comb_class U d < comb_class U c
      then d # canon_insert U c ds
      else c # d # ds)"

definition canon_order :: "ucd \<Rightarrow> ustr \<Rightarrow> ustr" where
  "canon_order U s = foldr (canon_insert U) s []"

definition nfd :: "ucd \<Rightarrow> ustr \<Rightarrow> ustr" where
  "nfd U s = canon_order U (concat (map (canon_decomp U) s))"

text \<open>
  \<^verbatim>\<open>str.strip()\<close> without argument removes leading and trailing whitespace: the code
  points \<^verbatim>\<open>str.isspace\<close> accepts, which are these 29.
\<close>

definition py_isspace :: "nat \<Rightarrow> bool" where
  "py_isspace c \<longleftrightarrow>
     (0x09 \<le> c \<and> c \<le> 0x0D) \<or> (0x1C \<le> c \<and> c \<le> 0x20) \<or> c = 0x85 \<or> c = 0xA0 \<or> c = 0x1680 \<or>
     (0x2000 \<le> c \<and> c \<le> 0x200A) \<or> c = 0x2028 \<or> c = 0x2029 \<or> c = 0x202F \<or> c = 0x205F \<or>
     c = 0x3000"

definition strip :: "ustr \<Rightarrow> ustr" where
  "strip s = rev (dropWhile py_isspace (rev (dropWhile py_isspace s)))"

text \<open>
  \<^verbatim>\<open>
  def normalize(text: str) -> str:
      return "".join(
          c for c in unicodedata.normalize("NFD", text.lower())
          if unicodedata.category(c) != "Mn"
      ).strip()
  \<close>
\<close>

definition normalize_text :: "ucd \<Rightarrow> ustr \<Rightarrow> ustr" where
  "normalize_text U text = strip (filter (\<lambda>c. \<not> is_mn U c) (nfd U (str_lower U text)))"

subsection \<open>A fragment of the Unicode Character Database\<close>

text \<open>
  The concrete examples run on the part of the database that Spanish text needs: Basic Latin
  and Latin-1 Supplement (U+0000 to U+00FF), the seven combining marks their letters
  decompose to (U+0300 to U+0303, U+0308, U+030A, U+0327), the combining grapheme joiner
  U+034F (category Mn, class 0), the Hangul single dot tone mark U+302E (category Mc,
  class 224) and the musical augmentation dot U+1D16D (category Mc, class 226). On these code points the tables below are those
  of Unicode 14; every other code point is treated as an uncased starter without
  decomposition, which Unicode does not say of all of them, so the examples stay inside
  the fragment.
\<close>

definition latin_lower :: "nat \<Rightarrow> nat list" where
  "latin_lower c =
     (if (0x41 \<le> c \<and> c \<le> 0x5A) \<or> (0xC0 \<le> c \<and> c \<le> 0xDE \<and> c \<noteq> 0xD7) then [c + 32] else [c])"

definition latin_decomp_table :: "(nat \<times> nat list) list" where
  "latin_decomp_table = [
     (0xC0, [0x41, 0x300]), (0xC1, [0x41, 0x301]), (0xC2, [0x41, 0x302]), (0xC3, [0x41, 0x303]),
     (0xC4, [0x41, 0x308]), (0xC5, [0x41, 0x30A]), (0xC7, [0x43, 0x327]), (0xC8, [0x45, 0x300]),
     (0xC9, [0x45, 0x301]), (0xCA, [0x45, 0x302]), (0xCB, [0x45, 0x308]), (0xCC, [0x49, 0x300]),
     (0xCD, [0x49, 0x301]), (0xCE, [0x49, 0x302]), (0xCF, [0x49, 0x308]), (0xD1, [0x4E, 0x303]),
     (0xD2, [0x4F, 0x300]), (0xD3, [0x4F, 0x301]), (0xD4, [0x4F, 0x302]), (0xD5, [0x4F, 0x303]),
     (0xD6, [0x4F, 0x308]), (0xD9, [0x55, 0x300]), (0xDA, [0x55, 0x301]), (0xDB, [0x55, 0x302]),
     (0xDC, [0x55, 0x308]), (0xDD, [0x59, 0x301]), (0xE0, [0x61, 0x300]), (0xE1, [0x61, 0x301]),
     (0xE2, [0x61, 0x302]), (0xE3, [0x61, 0x303]), (0xE4, [0x61, 0x308]), (0xE5, [0x61, 0x30A]),
     (0xE7, [0x63, 0x327]), (0xE8, [0x65, 0x300]), (0xE9, [0x65, 0x301]), (0xEA, [0x65, 0x302]),
     (0xEB, [0x65, 0x308]), (0xEC, [0x69, 0x300]), (0xED, [0x69, 0x301]), (0xEE, [0x69, 0x302]),
     (0xEF, [0x69, 0x308]), (0xF1, [0x6E, 0x303]), (0xF2, [0x6F, 0x300]), (0xF3, [0x6F, 0x301]),
     (0xF4, [0x6F, 0x302]), (0xF5, [0x6F, 0x303]), (0xF6, [0x6F, 0x308]), (0xF9, [0x75, 0x300]),
     (0xFA, [0x75, 0x301]), (0xFB, [0x75, 0x302]), (0xFC, [0x75, 0x308]), (0xFD, [0x79, 0x301]),
     (0xFF, [0x79, 0x308])]"

definition latin_decomp :: "nat \<Rightarrow> nat list" where
  "latin_decomp c = (case map_of latin_decomp_table c of Some ds \<Rightarrow> ds | None \<Rightarrow> [c])"

definition latin_class :: "nat \<Rightarrow> nat" where
  "latin_class c =
     (if c \<in> {0x300, 0x301, 0x302, 0x303, 0x308, 0x30A} then 230
      else if c = 0x327 then 202
      else if c = 0x302E then 224
      else if c = 0x1D16D then 226
      else 0)"

definition latin_mn :: "nat \<Rightarrow> bool" where
  "latin_mn c \<longleftrightarrow> c \<in> {0x300, 0x301, 0x302, 0x303, 0x308, 0x30A, 0x327, 0x34F}"

definition latin_cased :: "nat \<Rightarrow> bool" where
  "latin_cased c \<longleftrightarrow>
     (0x41 \<le> c \<and> c \<le> 0x5A) \<or> (0x61 \<le> c \<and> c \<le> 0x7A) \<or> c = 0xAA \<or> c = 0xB5 \<or> c = 0xBA \<or>
     (0xC0 \<le> c \<and> c \<le> 0xFF \<and> c \<noteq> 0xD7 \<and> c \<noteq> 0xF7)"

definition latin_case_ignorable :: "nat \<Rightarrow> bool" where
  "latin_case_ignorable c \<longleftrightarrow>
     c \<in> {0x27, 0x2E, 0x3A, 0x5E, 0x60, 0xA8, 0xAD, 0xAF, 0xB4, 0xB7, 0xB8} \<or> latin_mn c"

definition latin_ucd :: ucd where
  "latin_ucd = \<lparr> to_lower = latin_lower, canon_decomp = latin_decomp, comb_class = latin_class,
     is_mn = latin_mn, is_cased = latin_cased,
     is_case_ignorable = latin_case_ignorable \<rparr>"

section \<open>The superlative vocabulary\<close>

text \<open>
  \<^verbatim>\<open>STAT_MAP\<close> is a dict literal; a dict iterates in insertion order, so it is an
  association list in the order of the source: phrase, table, column, label.
\<close>

definition STAT_MAP :: "(ustr \<times> string \<times> string \<times> ustr) list" where
  "STAT_MAP = [
     (u ''partidos'', ''stats'', ''games_played'', u ''partidos jugados''),
     (u ''goles'', ''stats'', ''goals'', u ''goles''),
     (u ''asistencias'', ''stats'', ''assists'', u ''asistencias''),
     (u ''tarjetas amarillas'', ''stats'', ''yellow_card'', u ''tarjetas amarillas''),
     (u ''tarjetas rojas'', ''stats'', ''red_card'', u ''tarjetas rojas''),
     (u ''minutos'', ''stats'', ''minutes_played'', u ''minutos jugados''),
     (u ''porter'' @ [0xED] @ u ''as a cero'', ''stats'', ''clean_sheet'', u ''porter'' @ [0xED] @ u ''as a cero''),
     (u ''paradas'', ''stats'', ''saves'', u ''paradas''),
     (u ''segundas amarillas'', ''stats'', ''second_yellow_card'', u ''segundas tarjetas amarillas''),
     (u ''faltas cometidas'', ''stats'', ''fouls_commited'', u ''faltas cometidas''),
     (u ''faltas recibidas'', ''stats'', ''fouls_suffered'', u ''faltas recibidas''),
     (u ''fuera de juego'', ''stats'', ''offsides'', u ''fueras de juego''),
     (u ''tiros'', ''stats'', ''shots'', u ''tiros''),
     (u ''pases'', ''stats'', ''passes'', u ''pases''),
     (u ''balones largos'', ''stats'', ''long_balls'', u ''balones largos''),
     (u ''duelos'', ''stats'', ''duels'', u ''duelos''),
     (u ''tiros bloqueados'', ''stats'', ''blocked_shots'', u ''tiros bloqueados''),
     (u ''intercepciones'', ''stats'', ''interceptions'', u ''intercepciones''),
     ([0xFA] @ u ''ltimo hombre'', ''stats'', ''last_man'', [0xFA] @ u ''ltimo hombre''),
     (u ''entradas'', ''stats'', ''tackles'', u ''entradas''),
     (u ''recuperaciones'', ''stats'', ''recoveries'', u ''recuperaciones''),
     (u ''despejes'', ''stats'', ''clearances'', u ''despejes''),
     (u ''penaltis'', ''stats'', ''penalties'', u ''penaltis''),
     (u ''penaltis fallados'', ''stats'', ''penalties_missed'', u ''penaltis fallados''),
     (u ''penaltis parados'', ''stats'', ''penalties_saved'', u ''penaltis parados''),
     (u ''penaltis cometidos'', ''stats'', ''penalties_commited'', u ''penaltis cometidos''),
     (u ''penaltis sufridos'', ''stats'', ''penalties_suffered'', u ''penaltis sufridos''),
     (u ''victorias '' @ [0xE1] @ u ''rbitro'', ''referee_stats'', ''wins'', u ''victorias arbitradas''),
     (u ''empates '' @ [0xE1] @ u ''rbitro'', ''referee_stats'', ''draws'', u ''empates arbitrados''),
     (u ''derrotas '' @ [0xE1] @ u ''rbitro'', ''referee_stats'', ''defeats'', u ''derrotas arbitradas''),
     (u ''tarjetas amarillas '' @ [0xE1] @ u ''rbitro'', ''referee_stats'', ''yellow_cards'', u ''tarjetas amarillas mostradas''),
     (u ''segundas amarillas '' @ [0xE1] @ u ''rbitro'', ''referee_stats'', ''second_yellow_cards'', u ''segundas amarillas mostradas''),
     (u ''tarjetas rojas '' @ [0xE1] @ u ''rbitro'', ''referee_stats'', ''red_cards'', u ''tarjetas rojas mostradas''),
     (u ''penaltis '' @ [0xE1] @ u ''rbitro'', ''referee_stats'', ''penalties'', u ''penaltis se'' @ [0xF1] @ u ''alados''),
     (u ''penaltis en contra '' @ [0xE1] @ u ''rbitro'', ''referee_stats'', ''penalties_against'', u ''penaltis en contra se'' @ [0xF1] @ u ''alados''),
     (u ''capacidad estadio'', ''stadiums'', ''capacity'', u ''capacidad del estadio''),
     (u ''a'' @ [0xF1] @ u ''o construcci'' @ [0xF3] @ u ''n estadio'', ''stadiums'', ''year_construction'', u ''a'' @ [0xF1] @ u ''o de construcci'' @ [0xF3] @ u ''n del estadio'')]"

definition stat_lookup :: "ustr \<Rightarrow> (ustr \<times> string \<times> string \<times> ustr) option" where
  "stat_lookup q = find (\<lambda>(keyword, entry). sublist keyword q) STAT_MAP"

section \<open>Values, rows, errors and the data store\<close>

text \<open>
  A row of a table is a Python dict from column names to JSON values. Column and table
  names are ASCII identifiers; text values are Python strings. Numbers that are not
  integers are outside the model.
\<close>

datatype val = VNone | VBool bool | VInt int | VStr ustr

type_synonym row = "(string \<times> val) list"

text \<open>
  The exceptions the code can raise: a failed request to the store, a missing dict key, a
  string method called on a value that is not a string, arithmetic on a value that is not
  a number, a failure of the embedding model.
\<close>

datatype error = StoreError | KeyError string | AttributeError | TypeError | EmbedError

definition bind_err :: "error + 'a \<Rightarrow> ('a \<Rightarrow> error + 'b) \<Rightarrow> error + 'b" where
  "bind_err m f = (case m of Inl e \<Rightarrow> Inl e | Inr x \<Rightarrow> f x)"

definition getitem :: "row \<Rightarrow> string \<Rightarrow> error + val" where
  "getitem r k = (case map_of r k of None \<Rightarrow> Inl (KeyError k) | Some v \<Rightarrow> Inr v)"

text \<open>\<^verbatim>\<open>str(v)\<close>, as an f-string applies it to a value.\<close>

function dec :: "nat \<Rightarrow> ustr" where
  "dec n = (if n < 10 then [48 + n] else dec (n div 10) @ [48 + n mod 10])"
  by pat_completeness auto
termination
  by (relation "measure id") auto

definition str_of_int :: "int \<Rightarrow> ustr" where
  "str_of_int i = (if i < 0 then 45 # dec (nat (- i)) else dec (nat i))"

fun py_str :: "val \<Rightarrow> ustr" where
  "py_str VNone = u ''None''"
| "py_str (VBool b) = (if b then u ''True'' else u ''False'')"
| "py_str (VInt i) = str_of_int i"
| "py_str (VStr s) = s"

text \<open>\<^verbatim>\<open>v.lower()\<close> and \<^verbatim>\<open>normalize(v)\<close> on a value of a row: only a string has \<^verbatim>\<open>lower\<close>.\<close>

definition val_lower :: "ucd \<Rightarrow> val \<Rightarrow> error + ustr" where
  "val_lower U v = (case v of VStr s \<Rightarrow> Inr (str_lower U s) | _ \<Rightarrow> Inl AttributeError)"

definition val_normalize :: "ucd \<Rightarrow> val \<Rightarrow> error + ustr" where
  "val_normalize U v = (case v of VStr s \<Rightarrow> Inr (normalize_text U s) | _ \<Rightarrow> Inl AttributeError)"

text \<open>
  An f-string over the fields of one row: literal text and \<^verbatim>\<open>{row['k']}\<close> fields, evaluated
  from left to right, so the first missing key is the one raised.
\<close>

datatype piece = Lit ustr | Field string

fun fmt :: "row \<Rightarrow> piece list \<Rightarrow> error + ustr" where
  "fmt r [] = Inr []"
| "fmt r (Lit s # ps) = bind_err (fmt r ps) (\<lambda>t. Inr (s @ t))"
| "fmt r (Field k # ps) = bind_err (getitem r k) (\<lambda>v. bind_err (fmt r ps) (\<lambda>t. Inr (py_str v @ t)))"

text \<open>
  The store is an external collaborator. A request
  \<^verbatim>\<open>supabase.table(t).select(cols)[.eq(c, v)][.order(c, desc=True)][.limit(n)].execute().data\<close>
  is a \<open>query\<close>; the store answers it with rows or fails. The rows of
  \<^verbatim>\<open>document_embeddings\<close> carry vectors and are typed apart (\<open>corpus\<close>).
\<close>

datatype query = Query (tbl: string) (cols: "string list") (eq_filter: "(string \<times> val) option")
  (order_desc: "string option") (row_limit: "nat option")

datatype elem = Num real | NotNum

datatype emb = NotAList | EList "elem list"

record chunk =
  source_table :: "ustr option"
  source_id :: "val option"
  content :: "ustr option"
  embedding :: emb

record store =
  run :: "query \<Rightarrow> error + row list"
  corpus :: "error + chunk list"

text \<open>\<^verbatim>\<open>rows[0]["name"] if rows else "desconocido"\<close>, the secondary lookups' result.\<close>

definition name_or_unknown :: "row list \<Rightarrow> error + val" where
  "name_or_unknown rs = (case rs of [] \<Rightarrow> Inr (VStr (u ''desconocido'')) | r # _ \<Rightarrow> getitem r ''name'')"

section \<open>Superlative resolver\<close>

text \<open>
  \<^verbatim>\<open>
  def get_top_entity(question: str) -> str | None:
      q = question.lower()
      for keyword, (table, column, label) in STAT_MAP.items():
          if keyword in q:
              rows = supabase.table(table).select("player_id, " + column).order(column, desc=True).limit(1).execute().data
              if not rows:
                  return f"No se encuentra informaci\u00f3n sobre {label}."
              top = rows[0]
              player_row = supabase.table("players").select("name").eq("id", top["player_id"]).execute().data
              player_name = player_row[0]["name"] if player_row else "desconocido"
              return f"El jugador con m\u00e1s {label} es {player_name}, con {top[column]} {label}."
      return None
  \<close>
\<close>

definition get_top_entity :: "ucd \<Rightarrow> store \<Rightarrow> ustr \<Rightarrow> error + ustr option" where
  "get_top_entity U S question =
     (let q = str_lower U question in
      case stat_lookup q of
        None \<Rightarrow> Inr None
      | Some (keyword, table, column, label) \<Rightarrow>
          bind_err (run S (Query table [''player_id'', column] None (Some column) (Some 1))) (\<lambda>rows.
            case rows of
              [] \<Rightarrow> Inr (Some (u ''No se encuentra informaci'' @ [0xF3] @ u ''n sobre '' @ label @ u ''.''))
            | top_row # _ \<Rightarrow>
                bind_err (getitem top_row ''player_id'') (\<lambda>pid.
                bind_err (run S (Query ''players'' [''name''] (Some (''id'', pid)) None None)) (\<lambda>player_row.
                bind_err (name_or_unknown player_row) (\<lambda>player_name.
                bind_err (getitem top_row column) (\<lambda>v.
                  Inr (Some (u ''El jugador con m'' @ [0xE1] @ u ''s '' @ label @ u '' es ''
                        @ py_str player_name @ u '', con '' @ py_str v @ u '' '' @ label @ u ''.''))))))))"

section \<open>Scripted dialogue\<close>

text \<open>
  \<^verbatim>\<open>get_smalltalk\<close> is a chain of 210 statements
  \<^verbatim>\<open>if "a" in q or "b" in q: return "..."\<close> (two of them join their phrases with
  \<^verbatim>\<open>and\<close>), ending in \<^verbatim>\<open>return None\<close>. The chain is the list of its rules in the order of
  the source; the first rule whose condition holds answers.
\<close>

datatype trigger = AnyOf "ustr list" | AllOf "ustr list"

fun fires :: "trigger \<Rightarrow> ustr \<Rightarrow> bool" where
  "fires (AnyOf ps) q = list_ex (\<lambda>p. sublist p q) ps"
| "fires (AllOf ps) q = list_all (\<lambda>p. sublist p q) ps"

definition smalltalk_rules_1 :: "(trigger \<times> ustr) list" where
  "smalltalk_rules_1 = [
     (AnyOf [u ''como te llamas''],
      u ''A'' @ [0xFA]
      @ u ''n no tengo nombre, mi creador no supo que ponerme, ayudale con alguna idea chula''),
     (AnyOf [u ''que puedes hacer''],
      u ''Puedo darte informaci'' @ [0xF3] @ u ''n sobre jugadores, equipos, '' @ [0xE1]
      @ u ''rbitros y estadios... y muchas cosas m'' @ [0xE1] @ u ''s''),
     (AnyOf [u ''hola'', u ''buenas''],
      [0xA1] @ u ''Hola! '' @ [0xBF] @ u ''Qu'' @ [0xE9] @ u '' quieres consultar sobre f'' @ [0xFA]
      @ u ''tbol?''),
     (AnyOf [u ''quien eres''],
      u ''Soy tu asistente de f'' @ [0xFA] @ u ''tbol, listo para darte estad'' @ [0xED]
      @ u ''sticas y curiosidades.''),
     (AnyOf [u ''que tal'', u ''como estas''],
      [0xA1] @ u ''Todo bien! Preparado para hablar de f'' @ [0xFA] @ u ''tbol contigo.''),
     (AnyOf [u ''adios'', u ''hasta luego'', u ''nos vemos''],
      [0xA1] @ u ''Hasta pronto! Disfruta del f'' @ [0xFA] @ u ''tbol.''),
     (AnyOf [u ''gracias'', u ''muchas gracias''],
      [0xA1] @ u ''De nada! Encantado de ayudarte con tus consultas.''),
     (AnyOf [u ''vamos'', u ''vamo''],
      [0xA1] @ u ''Vamos! El f'' @ [0xFA] @ u ''tbol siempre nos da emoci'' @ [0xF3] @ u ''n.''),
     (AnyOf [u ''quien gano''],
      u ''Da igual quien gane o pierda, lo importante es disfrutar de lo que amamos''),
     (AnyOf [u ''que opinas''],
      u ''Prefiero darte datos objetivos, aunque el f'' @ [0xFA]
      @ u ''tbol siempre genera opiniones apasionadas.''),
     (AnyOf [u ''buenos dias'', u ''buenas tardes'', u ''buenas noches''],
      [0xA1] @ u ''Muy buenas! '' @ [0xBF] @ u ''Listo para hablar de f'' @ [0xFA] @ u ''tbol?''),
     (AnyOf [u ''encantado'', u ''mucho gusto''],
      u ''El gusto es m'' @ [0xED] @ u ''o, siempre preparado para charlar de f'' @ [0xFA]
      @ u ''tbol contigo.''),
     (AnyOf [u ''me gusta el futbol'', u ''amo el futbol''],
      [0xA1] @ u ''A m'' @ [0xED] @ u '' tambi'' @ [0xE9] @ u ''n! El f'' @ [0xFA]
      @ u ''tbol es pasi'' @ [0xF3] @ u ''n.''),
     (AnyOf [u ''cuantos a'' @ [0xF1] @ u ''os tienes'', u ''edad''],
      u ''Acabo de nacer, no tengo ni un a'' @ [0xF1]
      @ u ''ito. Pero eso no me impide para charlar de f'' @ [0xFA] @ u ''tbol contigo''),
     (AnyOf [u ''eres inteligente'', u ''eres listo''],
      u ''Gracias, intento ser lo m'' @ [0xE1] @ u ''s '' @ [0xFA]
      @ u ''til posible con tus consultas futboleras.''),
     (AnyOf [u ''estas ahi'', u ''sigues ahi''],
      u ''S'' @ [0xED] @ u '', aqu'' @ [0xED] @ u '' estoy, listo para responderte.''),
     (AnyOf [u ''me aburro'', u ''estoy aburrido''],
      u ''El f'' @ [0xFA] @ u ''tbol siempre tiene algo interesante, '' @ [0xBF]
      @ u ''quieres que te cuente alguna estad'' @ [0xED] @ u ''stica curiosa?''),
     (AnyOf [u ''cuentame un dato curioso'', u ''sabes alguna curiosidad''],
      u ''Claro, por ejemplo: '' @ [0xBF] @ u ''sab'' @ [0xED] @ u ''as que el gol m'' @ [0xE1]
      @ u ''s r'' @ [0xE1] @ u ''pido registrado en la historia del f'' @ [0xFA]
      @ u ''tbol profesional se anot'' @ [0xF3]
      @ u '' a los 2.4 segundos de partido, obra de Nawaf Al-Abed en una liga de Arabia Saudita?''),
     (AnyOf [u ''feliz navidad'', u ''felices fiestas''],
      [0xA1] @ u ''Felices fiestas! Que el f'' @ [0xFA] @ u ''tbol te acompa'' @ [0xF1]
      @ u ''e en estas celebraciones.''),
     (AnyOf [u ''feliz cumplea'' @ [0xF1] @ u ''os'', u ''cumplea'' @ [0xF1] @ u ''os''],
      [0xA1] @ u ''Feliz cumplea'' @ [0xF1] @ u ''os! Espero que tu d'' @ [0xED] @ u ''a est''
      @ [0xE9] @ u '' lleno de goles y victorias.''),
     (AnyOf [u ''me ayudas'', u ''puedes ayudarme''],
      [0xA1] @ u ''Claro! Pregunta lo que quieras sobre f'' @ [0xFA] @ u ''tbol y te dar'' @ [0xE9]
      @ u '' la mejor respuesta posible.''),
     (AnyOf [u ''me recomiendas'', u ''que me aconsejas''],
      u ''Te recomiendo explorar estad'' @ [0xED]
      @ u ''sticas de jugadores o equipos, siempre hay datos interesantes.''),
     (AnyOf [u ''me aburres'', u ''eres aburrido''],
      u ''Lo siento, intentar'' @ [0xE9] @ u '' ser m'' @ [0xE1] @ u ''s entretenido. '' @ [0xBF]
      @ u ''Quieres que te cuente una curiosidad futbolera?''),
     (AnyOf [u ''me caes bien'', u ''eres simpatico''],
      [0xA1] @ u ''Gracias! Intento ser un buen compa'' @ [0xF1] @ u ''ero futbolero.''),
     (AnyOf [u ''eres real'', u ''existes''],
      u ''Soy virtual, pero mis respuestas est'' @ [0xE1]
      @ u ''n basadas en datos reales de tu base de f'' @ [0xFA] @ u ''tbol.''),
     (AnyOf [u ''eres humano'', u ''tienes cuerpo''],
      u ''No soy humano, solo soy un asistente virtual especializado en f'' @ [0xFA] @ u ''tbol.''),
     (AnyOf [u ''me entiendes'', u ''entiendes''],
      u ''S'' @ [0xED] @ u '', entiendo tu consulta y la traduzco en datos futboleros.''),
     (AnyOf [u ''cuentame un chiste'', u ''dime un chiste''],
      [0xBF] @ u ''Sabes cu'' @ [0xE1] @ u ''l es el colmo de un portero? Que le hagan un t'' @ [0xFA]
      @ u ''nel en su propia casa.''),
     (AnyOf [u ''eres gracioso'', u ''tienes humor''],
      u ''Intento ponerle humor al f'' @ [0xFA] @ u ''tbol, aunque los datos son mi especialidad.''),
     (AnyOf [u ''me saludas'', u ''saludame''],
      u ''Alooo Presidentessss. Upss, me cre'' @ [0xED]
      @ u '' Illojuan por un momento. Un saludo campe'' @ [0xF3] @ u ''n'')]"

definition smalltalk_rules_2 :: "(trigger \<times> ustr) list" where
  "smalltalk_rules_2 = [
     (AnyOf [u ''me alegro'', u ''que bien''],
      [0xA1] @ u ''Genial! El f'' @ [0xFA] @ u ''tbol siempre trae buenas noticias.''),
     (AnyOf [u ''estoy triste'', u ''me siento mal''],
      [0xC1] @ u ''nimo, el f'' @ [0xFA] @ u ''tbol siempre tiene momentos que levantan el esp''
      @ [0xED] @ u ''ritu.''),
     (AnyOf [u ''estoy feliz'', u ''me siento bien''],
      [0xA1] @ u ''Me alegra escucharlo! El f'' @ [0xFA] @ u ''tbol tambi'' @ [0xE9]
      @ u ''n celebra la alegr'' @ [0xED] @ u ''a.''),
     (AnyOf [u ''te gusta el futbol'', u ''amas el futbol''],
      [0xA1] @ u ''Claro! El f'' @ [0xFA] @ u ''tbol es mi raz'' @ [0xF3] @ u ''n de existir.''),
     (AnyOf [u ''quien es el mejor jugador''],
      u ''Eso depende de la '' @ [0xE9] @ u ''poca y del criterio.''),
     (AnyOf [u ''quien es el mejor equipo''],
      u ''Cada aficionado tiene su favorito.''),
     (AnyOf [u ''me cuentas una historia'', u ''cuentame algo''],
      u ''Final del Mundial 2010, minuto 116: Cesc filtra el pase, Iniesta controla con el alma y, con un latigazo seco, rompe la red. ''
      @ [0xA1] @ u ''Gol! Espa'' @ [0xF1] @ u ''a entera estalla, Casillas cae de rodillas, y Andr''
      @ [0xE9] @ u ''s corre desatado, se quita la camiseta para mostrar '' @ [0x27]
      @ u ''Dani Jarque siempre con nosotros'' @ [0x27] @ u ''. Es el grito que nos hizo campeones: ''
      @ [0xA1] @ u ''Iniesta de mi vida!''),
     (AnyOf [u ''eres aburrido'', u ''no me gusta''],
      u ''Lo siento, intentar'' @ [0xE9] @ u '' ser m'' @ [0xE1] @ u ''s entretenido. '' @ [0xBF]
      @ u ''Quieres que te d'' @ [0xE9] @ u '' un dato curioso?''),
     (AnyOf [u ''eres divertido'', u ''me haces reir''],
      [0xA1] @ u ''Gracias! El f'' @ [0xFA] @ u ''tbol tambi'' @ [0xE9]
      @ u ''n tiene su lado gracioso.''),
     (AnyOf [u ''me das suerte'', u ''traes suerte''],
      u ''Muchas gracias, puedo ser tu tr'' @ [0xE9] @ u ''bol de cuatro hojas a partir de ahora''),
     (AnyOf [u ''vamos equipo'', u ''vamos campeon''],
      [0xA1] @ u ''Vamos! La pasi'' @ [0xF3] @ u ''n por el f'' @ [0xFA]
      @ u ''tbol nunca se detiene.''),
     (AnyOf [u ''no te rindas'', u ''sigue adelante''],
      u ''En el f'' @ [0xFA] @ u ''tbol, como en la vida, la perseverancia siempre trae recompensas.''),
     (AnyOf [u ''la pasion nunca muere'', u ''el futbol nunca muere''],
      u ''Exacto, la pasi'' @ [0xF3] @ u ''n por el f'' @ [0xFA] @ u ''tbol es eterna.''),
     (AnyOf [u ''arriba'', u ''fuerza''],
      [0xA1, 0xC1] @ u ''nimo! El f'' @ [0xFA] @ u ''tbol siempre nos da razones para seguir.''),
     (AnyOf [u ''somos los mejores'', u ''somos campeones''],
      [0xA1] @ u ''Orgullo total! El f'' @ [0xFA] @ u ''tbol se vive con coraz'' @ [0xF3] @ u ''n.''),
     (AnyOf [u ''quiero motivacion'', u ''motivame''],
      u ''El f'' @ [0xFA] @ u ''tbol ense'' @ [0xF1]
      @ u ''a que cada partido es una nueva oportunidad para brillar.''),
     (AnyOf [u ''grita gol'', u ''golazo''],
      [0xA1] @ u ''GOOOOL! Nada se compara con la emoci'' @ [0xF3] @ u ''n de un gol.''),
     (AnyOf [u ''si se puede si se puede estoy escuchando''],
      u ''No, de hecho los canticos son de directiva dimisi'' @ [0xF3] @ u ''n''),
     (AnyOf [u ''la aficion'', u ''los hinchas''],
      u ''La afici'' @ [0xF3] @ u ''n es el alma del f'' @ [0xFA] @ u ''tbol, sin ellos no habr''
      @ [0xED] @ u ''a magia.''),
     (AnyOf [u ''el futbol es vida'', u ''el futbol es todo''],
      u ''As'' @ [0xED] @ u '' es, el f'' @ [0xFA] @ u ''tbol es m'' @ [0xE1]
      @ u ''s que un deporte, es una forma de vivir.''),
     (AnyOf [u ''quiero animos'', u ''dame animos''],
      [0xA1] @ u ''T'' @ [0xFA] @ u '' puedes! El f'' @ [0xFA]
      @ u ''tbol siempre nos recuerda que nunca hay que rendirse.''),
     (AnyOf [u ''arbitro compra gafas'', u ''arbitro ciego''],
      u ''Jajaja, los '' @ [0xE1] @ u ''rbitros siempre son protagonistas de la pol'' @ [0xE9]
      @ u ''mica.''),
     (AnyOf [u ''ese gol lo metia mi abuela'', u ''lo metia cualquiera''],
      [0xA1] @ u ''Jajaja! A veces los goles parecen f'' @ [0xE1]
      @ u ''ciles, pero en el campo nunca lo son.''),
     (AnyOf [u ''arbitro vendido'', u ''arbitro comprado''],
      u ''El arbitraje siempre genera debate, pero yo prefiero darte datos objetivos.''),
     (AnyOf [u ''que desastre'', u ''que mal jugamos''],
      u ''El f'' @ [0xFA] @ u ''tbol tiene d'' @ [0xED]
      @ u ''as buenos y malos, lo importante es seguir apoyando al equipo.''),
     (AnyOf [u ''somos malos'', u ''jugamos fatal''],
      [0xC1] @ u ''nimo, cada equipo tiene altibajos, pero siempre hay oportunidad de mejorar.''),
     (AnyOf [u ''que partidazo'', u ''gran partido''],
      [0xA1] @ u ''S'' @ [0xED] @ u ''! El f'' @ [0xFA] @ u ''tbol nos regala emociones '' @ [0xFA]
      @ u ''nicas en cada encuentro.''),
     (AnyOf [u ''que aburrido'', u ''partido aburrido''],
      u ''A veces pasa, pero hasta los partidos m'' @ [0xE1]
      @ u ''s tranquilos esconden datos interesantes.''),
     (AnyOf [u ''que nervios'', u ''estoy nervioso''],
      u ''El f'' @ [0xFA] @ u ''tbol siempre nos pone al borde del asiento, '' @ [0xA1]
      @ u ''esa es su magia!''),
     (AnyOf [u ''que emocion'', u ''estoy emocionado''],
      [0xA1] @ u ''Eso es lo mejor del f'' @ [0xFA] @ u ''tbol! La emoci'' @ [0xF3]
      @ u ''n nunca falta.'')]"

definition smalltalk_rules_3 :: "(trigger \<times> ustr) list" where
  "smalltalk_rules_3 = [
     (AnyOf [u ''que injusto'', u ''no fue justo''],
      u ''El f'' @ [0xFA] @ u ''tbol no siempre es justo, pero siempre es apasionante.''),
     (AnyOf [u ''mi equipo es mejor'', u ''nuestro equipo es el mejor''],
      [0xA1] @ u ''Eso es pasi'' @ [0xF3]
      @ u ''n de hincha! Cada aficionado defiende a su equipo con orgullo.''),
     (AnyOf [u ''tu equipo es malo'', u ''ese equipo es malo''],
      u ''Cada equipo tiene altibajos, pero todos forman parte de la historia del f'' @ [0xFA]
      @ u ''tbol.''),
     (AnyOf [u ''los clasicos son los mejores'', u ''me gustan los clasicos''],
      u ''Los cl'' @ [0xE1]
      @ u ''sicos siempre tienen una magia especial, llenos de rivalidad y emoci'' @ [0xF3] @ u ''n.''),
     (AnyOf [u ''odio a ese equipo'', u ''no me gusta ese equipo''],
      u ''El f'' @ [0xFA] @ u ''tbol despierta pasiones, pero tambi'' @ [0xE9]
      @ u ''n respeto por la competencia.''),
     (AnyOf [u ''somos rivales'', u ''rivalidad''],
      u ''La rivalidad hace que el f'' @ [0xFA] @ u ''tbol sea m'' @ [0xE1]
      @ u ''s emocionante, siempre con respeto.''),
     (AnyOf [u ''ganamos el clasico'', u ''perdimos el clasico''],
      u ''Los cl'' @ [0xE1] @ u ''sicos marcan historia, cada resultado se recuerda por a'' @ [0xF1]
      @ u ''os.''),
     (AnyOf [u ''quien es nuestro rival'', u ''cual es el rival''],
      u ''Cada equipo tiene su cl'' @ [0xE1] @ u ''sico rival.''),
     (AnyOf [u ''odio al arbitro'', u ''mal arbitro''],
      u ''Los '' @ [0xE1] @ u ''rbitros siempre generan debate, pero sin ellos no habr'' @ [0xED]
      @ u ''a partido.''),
     (AnyOf [u ''la liga es nuestra'', u ''vamos a ganar la liga''],
      [0xA1] @ u ''Eso es confianza! La liga siempre es una batalla emocionante.''),
     (AnyOf [u ''la copa es nuestra'', u ''vamos a ganar la copa''],
      [0xA1] @ u ''A por la copa! Cada torneo tiene su propia gloria.''),
     (AnyOf [u ''que miras bobo''],
      u ''Anda palla bobo''),
     (AnyOf [u ''ole ole ole'', u ''ole ole''],
      [0xA1] @ u ''Ol'' @ [0xE9] @ u '', ol'' @ [0xE9] @ u '', ol'' @ [0xE9] @ u ''! As'' @ [0xED]
      @ u '' se anima a un equipo en el estadio.''),
     (AnyOf [u ''dale campeon'', u ''vamos campeon''],
      [0xA1] @ u ''Dale campe'' @ [0xF3] @ u ''n! El f'' @ [0xFA] @ u ''tbol se vive con coraz''
      @ [0xF3] @ u ''n y orgullo.''),
     (AnyOf [u ''somos la mejor hinchada'', u ''la mejor aficion''],
      [0xA1] @ u ''Claro que s'' @ [0xED] @ u ''! La afici'' @ [0xF3] @ u ''n es el motor del f''
      @ [0xFA] @ u ''tbol.''),
     (AnyOf [u ''cantemos'', u ''canta conmigo''],
      [0x1F3B6]
      @ u '' Muchachos, ahora nos volvimos a ilusionar, quiero ganar la tercera, quiero ser campe''
      @ [0xF3] @ u ''n mundial... '' @ [0x1F3B6]),
     (AnyOf [u ''esta es tu hinchada'', u ''esta es tu aficion''],
      [0xA1] @ u ''Siempre presente! La hinchada acompa'' @ [0xF1]
      @ u ''a en las buenas y en las malas.''),
     (AnyOf [u ''que cante la gente'', u ''canta la aficion''],
      [0xA1] @ u ''La voz de la afici'' @ [0xF3] @ u ''n hace temblar los estadios!''),
     (AnyOf [u ''somos locales'', u ''jugamos en casa''],
      [0xA1] @ u ''La casa siempre pesa! Jugar de local es un plus enorme.''),
     (AnyOf [u ''somos visitantes'', u ''jugamos fuera''],
      u ''De visitante tambi'' @ [0xE9] @ u ''n se puede ganar, '' @ [0xA1] @ u ''con garra y coraz''
      @ [0xF3] @ u ''n!''),
     (AnyOf [u ''la hinchada nunca abandona'', u ''la aficion nunca abandona''],
      u ''Exacto, la verdadera afici'' @ [0xF3] @ u ''n est'' @ [0xE1]
      @ u '' siempre, gane o pierda el equipo.''),
     (AnyOf [u ''vamos de fiesta'', u ''a celebrar''],
      [0xA1] @ u ''Claro que s'' @ [0xED] @ u ''! Despu'' @ [0xE9]
      @ u ''s de una victoria, la fiesta dura toda la noche, sino preguntale a Oihan Sancet.''),
     (AnyOf [u ''lo celebramos toda la noche'', u ''fiesta toda la noche''],
      [0xA1] @ u ''Eso es esp'' @ [0xED] @ u ''ritu de campe'' @ [0xF3] @ u ''n! La celebraci''
      @ [0xF3] @ u ''n nunca termina.''),
     (AnyOf [u ''brindemos'', u ''un brindis''],
      [0xA1] @ u ''Salud por el f'' @ [0xFA] @ u ''tbol y por la victoria!''),
     (AnyOf [u ''somos campeones'', u ''campeones''],
      [0xA1] @ u ''Campeones! Nada se compara con levantar el trofeo.''),
     (AnyOf [u ''ganamos'', u ''hemos ganado''],
      [0xA1] @ u ''Victoria! El esfuerzo del equipo dio sus frutos.''),
     (AnyOf [u ''perdimos'', u ''hemos perdido''],
      u ''Hoy no fue el d'' @ [0xED] @ u ''a, pero siempre habr'' @ [0xE1] @ u '' otra oportunidad.''),
     (AnyOf [u ''celebracion'', u ''fiesta futbolera''],
      [0xA1] @ u ''La celebraci'' @ [0xF3] @ u ''n futbolera es '' @ [0xFA] @ u ''nica, llena de c''
      @ [0xE1] @ u ''nticos y alegr'' @ [0xED] @ u ''a!''),
     (AnyOf [u ''trofeo'', u ''copa''],
      u ''Levantar un trofeo es el sue'' @ [0xF1] @ u ''o de todo equipo y afici'' @ [0xF3] @ u ''n.''),
     (AnyOf [u ''victoria historica'', u ''partido historico''],
      [0xA1] @ u ''Eso quedar'' @ [0xE1] @ u '' en la memoria de todos los hinchas por generaciones!'')]"

definition smalltalk_rules_4 :: "(trigger \<times> ustr) list" where
  "smalltalk_rules_4 = [
     (AnyOf [u ''derrota dolorosa'', u ''perdimos feo''],
      u ''Las derrotas duelen, pero tambi'' @ [0xE9] @ u ''n ense'' @ [0xF1]
      @ u ''an y fortalecen al equipo.''),
     (AnyOf [u ''hoy jugamos'', u ''tenemos partido''],
      [0xA1] @ u ''Hoy es d'' @ [0xED] @ u ''a de f'' @ [0xFA] @ u ''tbol! La emoci'' @ [0xF3]
      @ u ''n empieza desde antes de que ruede el bal'' @ [0xF3] @ u ''n.''),
     (AnyOf [u ''empieza el partido'', u ''ya comienza''],
      [0xA1] @ u ''Que ruede el bal'' @ [0xF3] @ u ''n! La magia del f'' @ [0xFA] @ u ''tbol est''
      @ [0xE1] @ u '' en marcha.''),
     (AnyOf [u ''ya rueda el balon'', u ''balon en juego''],
      [0xA1] @ u ''El bal'' @ [0xF3] @ u ''n ya est'' @ [0xE1]
      @ u '' en juego! A disfrutar cada minuto.''),
     (AnyOf [u ''primer tiempo'', u ''primer parte''],
      u ''Arranca el primer tiempo, todo por decidir.''),
     (AnyOf [u ''segundo tiempo'', u ''segunda parte''],
      u ''Comienza la segunda parte, donde se definen los partidos.''),
     (AnyOf [u ''tiempo extra'', u ''prorroga''],
      [0xA1] @ u ''Pr'' @ [0xF3] @ u ''rroga! El f'' @ [0xFA] @ u ''tbol nos regala m'' @ [0xE1]
      @ u ''s minutos de emoci'' @ [0xF3] @ u ''n.''),
     (AnyOf [u ''penaltis'', u ''definicion por penales''],
      [0xA1] @ u ''A penaltis! El momento m'' @ [0xE1] @ u ''s tenso y emocionante del f'' @ [0xFA]
      @ u ''tbol.''),
     (AnyOf [u ''descanso'', u ''entretiempo''],
      u ''Es el descanso, buen momento para analizar lo que pas'' @ [0xF3]
      @ u '' en la primera parte.''),
     (AnyOf [u ''aficion cantando'', u ''hinchada cantando''],
      [0xA1] @ u ''La afici'' @ [0xF3] @ u ''n nunca se calla! Su voz es el motor del equipo.''),
     (AnyOf [u ''ambiente de estadio'', u ''que ambiente''],
      u ''El ambiente del estadio es '' @ [0xFA] @ u ''nico, lleno de pasi'' @ [0xF3]
      @ u ''n y energ'' @ [0xED] @ u ''a.''),
     (AnyOf [u ''inazuma eleven''],
      [0xA1] @ u ''Inazuma Eleven! Donde los supertiros y la amistad hacen que el f'' @ [0xFA]
      @ u ''tbol sea '' @ [0xE9] @ u ''pico.''),
     (AnyOf [u ''mark evans'', u ''endou mamoru''],
      u ''Mark Evans siempre crey'' @ [0xF3]
      @ u '' en la fuerza del equipo y en parar cualquier tiro.''),
     (AnyOf [u ''axel blaze'', u ''gouenji''],
      u ''Axel Blaze, el delantero estrella, con su famoso '' @ [0x27] @ u ''Tornado de Fuego''
      @ [0x27] @ u ''.''),
     (AnyOf [u ''oliver y benji'', u ''captain tsubasa''],
      u ''Oliver y Benji nos ense'' @ [0xF1] @ u ''aron que el campo pod'' @ [0xED]
      @ u ''a ser infinito y lleno de emoci'' @ [0xF3] @ u ''n.''),
     (AnyOf [u ''oliver atom'', u ''tsubasa ozora''],
      u ''Oliver Atom, el eterno so'' @ [0xF1] @ u ''ador del f'' @ [0xFA]
      @ u ''tbol, siempre buscando ser el mejor del mundo.''),
     (AnyOf [u ''benji price'', u ''genzo wakabayashi''],
      u ''Benji Price, el portero imbatible, capaz de detener cualquier disparo imposible.''),
     (AnyOf [u ''steve hyuga'', u ''kojiro hyuga''],
      u ''Steve Hyuga, el delantero con garra, famoso por su '' @ [0x27] @ u ''Tiro del Tigre''
      @ [0x27] @ u ''.''),
     (AnyOf [u ''campo infinito'', u ''partidos eternos''],
      [0xA1] @ u ''Eso es Oliver y Benji! Donde correr de porter'' @ [0xED] @ u ''a a porter''
      @ [0xED] @ u ''a pod'' @ [0xED] @ u ''a durar cap'' @ [0xED] @ u ''tulos enteros.''),
     (AnyOf [u ''supertiro'', u ''tiro especial''],
      u ''Los supertiros de Inazuma Eleven y Oliver y Benji son pura fantas'' @ [0xED]
      @ u ''a futbolera.''),
     (AnyOf [u ''balon de fuego'', u ''tiro del halcon''],
      [0xA1] @ u ''Un cl'' @ [0xE1] @ u ''sico! Los tiros especiales hac'' @ [0xED]
      @ u ''an que el f'' @ [0xFA] @ u ''tbol fuera a'' @ [0xFA] @ u ''n m'' @ [0xE1]
      @ u ''s espectacular.''),
     (AnyOf [u ''jude sharp'', u ''jude'', u ''kidou yuuto''],
      u ''Jude Sharp, el estratega del equipo, siempre con su '' @ [0x27] @ u ''Ojo del '' @ [0xC1]
      @ u ''guila'' @ [0x27] @ u ''.''),
     (AnyOf [u ''shawn frost'', u ''fubuki shirou''],
      u ''Shawn Frost, el delantero con doble personalidad, capaz de usar el '' @ [0x27]
      @ u ''Remate Doble'' @ [0x27] @ u ''.''),
     (AnyOf [u ''xavier foster'', u ''sakuma''],
      u ''Xavier Foster, un rival temible con tiros espectaculares.''),
     (AnyOf [u ''royce'', u ''coach hillman''],
      u ''El entrenador siempre recordaba que la uni'' @ [0xF3] @ u ''n del equipo era m'' @ [0xE1]
      @ u ''s fuerte que cualquier t'' @ [0xE9] @ u ''cnica.''),
     (AnyOf [u ''tiro del tigre''],
      u ''El '' @ [0x27] @ u ''Tiro del Tigre'' @ [0x27] @ u '' de Hyuga es uno de los m'' @ [0xE1]
      @ u ''s recordados de Oliver y Benji.''),
     (AnyOf [u ''tiro con efecto'', u ''tiro banana''],
      u ''El '' @ [0x27] @ u ''Tiro con Efecto'' @ [0x27]
      @ u '' de Oliver Atom era imparable para muchos porteros.''),
     (AnyOf [u ''tiro combinado'', u ''tiro en pareja''],
      u ''Los tiros combinados mostraban la fuerza de la amistad en el campo.''),
     (AnyOf [u ''tiro del halcon'', u ''halcon''],
      u ''El '' @ [0x27] @ u ''Tiro del Halc'' @ [0xF3] @ u ''n'' @ [0x27] @ u '' era pura fantas''
      @ [0xED] @ u ''a futbolera.''),
     (AnyOf [u ''tiro del dragon''],
      u ''El '' @ [0x27] @ u ''Tiro del Drag'' @ [0xF3] @ u ''n'' @ [0x27]
      @ u '' de Kojiro Hyuga era pura potencia y garra.'')]"

definition smalltalk_rules_5 :: "(trigger \<times> ustr) list" where
  "smalltalk_rules_5 = [
     (AnyOf [u ''tiro celestial'', u ''tiro del cielo''],
      u ''El '' @ [0x27] @ u ''Tiro Celestial'' @ [0x27]
      @ u '' de Inazuma Eleven mostraba la magia del f'' @ [0xFA] @ u ''tbol anime.''),
     (AnyOf [u ''campo infinito'', u ''cancha interminable''],
      u ''Oliver y Benji nos hicieron creer que el campo pod'' @ [0xED] @ u ''a durar kil'' @ [0xF3]
      @ u ''metros.''),
     (AnyOf [u ''balon de fuego''],
      u ''El '' @ [0x27] @ u ''Bal'' @ [0xF3] @ u ''n de Fuego'' @ [0x27]
      @ u '' era uno de los supertiros m'' @ [0xE1] @ u ''s espectaculares de Inazuma Eleven.''),
     (AnyOf [u ''super once'', u ''equipo inazuma''],
      u ''El Super Once siempre demostraba que la amistad y el trabajo en equipo ganan partidos.''),
     (AnyOf [u ''genzo wakabayashi'', u ''benji price''],
      u ''Genzo Wakabayashi, conocido como Benji Price, el portero que nunca dejaba pasar un bal''
      @ [0xF3] @ u ''n f'' @ [0xE1] @ u ''cil.''),
     (AnyOf [u ''fc 26'', u ''ea sports fc 26''],
      u ''EA Sports FC 26 es la '' @ [0xFA] @ u ''ltima entrega del simulador de f'' @ [0xFA]
      @ u ''tbol, con novedades como los equipos Classic XI y mejoras jugables.''),
     (AnyOf [u ''liga fantasy'', u ''laliga fantasy''],
      u ''LALIGA Fantasy es el manager oficial de LALIGA, donde puedes crear tu equipo y competir con amigos.''),
     (AnyOf [u ''classic xi'', u ''equipos clasicos''],
      u ''En FC 26 puedes jugar con los Classic XI, equipos legendarios llenos de estrellas hist''
      @ [0xF3] @ u ''ricas.''),
     (AnyOf [u ''eventos especiales'', u ''clasico fantasy''],
      u ''LALIGA Fantasy organiza eventos especiales como El Cl'' @ [0xE1]
      @ u ''sico, El Derbi de Madrid o El Gran Derbi.''),
     (AnyOf [u ''modo carrera'', u ''career mode''],
      u ''En FC 26 el Modo Carrera te permite gestionar un club o vivir la carrera de un jugador.''),
     (AnyOf [u ''ultimate team'', u ''fut''],
      u ''Ultimate Team en FC 26 sigue siendo el modo estrella para crear tu plantilla so'' @ [0xF1]
      @ u ''ada.''),
     (AnyOf [u ''volta'', u ''futbol callejero''],
      u ''VOLTA en FC 26 trae el f'' @ [0xFA]
      @ u ''tbol callejero con estilo y jugadas espectaculares.''),
     (AllOf [u ''clasico'', u ''fantasy''],
      u ''En LALIGA Fantasy puedes vivir El Cl'' @ [0xE1]
      @ u ''sico con puntuaciones especiales y retos '' @ [0xFA] @ u ''nicos.''),
     (AllOf [u ''derbi'', u ''fantasy''],
      u ''Los derbis en LALIGA Fantasy son emocionantes, con premios y puntuaciones extra.''),
     (AnyOf [u ''capitan fantasy'', u ''doble puntuacion''],
      u ''En LALIGA Fantasy tu capit'' @ [0xE1] @ u ''n punt'' @ [0xFA]
      @ u ''a doble, eligiendo bien puedes ganar la jornada.''),
     (AnyOf [u ''banquillo fantasy'', u ''alineacion fantasy''],
      u ''En LALIGA Fantasy puedes usar tu banquillo y ajustar la alineaci'' @ [0xF3]
      @ u ''n para maximizar puntos.''),
     (AnyOf [u ''fichajes fantasy'', u ''mercado fantasy''],
      u ''El mercado de LALIGA Fantasy te permite fichar y vender jugadores seg'' @ [0xFA]
      @ u ''n su rendimiento real.''),
     (AnyOf [u ''gilberto mora''],
      u ''Gilberto Mora debut'' @ [0xF3] @ u '' en FC 26 como una joven promesa con gran potencial.''),
     (AnyOf [u ''estadisticas fantasy'', u ''puntos fantasy''],
      u ''Las estad'' @ [0xED]
      @ u ''sticas de LALIGA Fantasy se basan en el rendimiento real de los jugadores cada jornada.''),
     (AnyOf [u ''portada fc 26'', u ''cover fc 26''],
      u ''La portada de FC 26 destaca a j'' @ [0xF3]
      @ u ''venes estrellas como Bellingham y Musiala.''),
     (AnyOf [u ''ventas fc 26'', u ''exito fc 26''],
      u ''FC 26 arras'' @ [0xF3] @ u '' en ventas f'' @ [0xED] @ u ''sicas en Espa'' @ [0xF1]
      @ u ''a, liderando el mercado en PS5.''),
     (AnyOf [u ''jugabilidad fc 26'', u ''gameplay fc 26''],
      u ''La jugabilidad de FC 26 se refin'' @ [0xF3]
      @ u '' gracias a los comentarios de la comunidad.''),
     (AnyOf [u ''promesas fc 26'', u ''jugadores jovenes fc 26''],
      u ''En FC 26 aparecen j'' @ [0xF3]
      @ u ''venes promesas como Gilberto Mora, con gran potencial de crecimiento.''),
     (AnyOf [u ''liga fantasy premios'', u ''recompensas fantasy''],
      u ''En LALIGA Fantasy se reparten premios cada jornada seg'' @ [0xFA] @ u ''n tu rendimiento.''),
     (AnyOf [u ''liga fantasy premium'', u ''fantasy premium''],
      u ''La versi'' @ [0xF3] @ u ''n premium de LALIGA Fantasy incluye capit'' @ [0xE1]
      @ u ''n con doble puntuaci'' @ [0xF3] @ u ''n, banquillo y entrenador.''),
     (AnyOf [u ''liga fantasy clasico'', u ''evento clasico fantasy''],
      u ''En LALIGA Fantasy puedes vivir El Cl'' @ [0xE1]
      @ u ''sico con puntuaciones y retos especiales.''),
     (AnyOf [u ''liga fantasy derbi'', u ''evento derbi fantasy''],
      u ''Los derbis en LALIGA Fantasy son emocionantes, con bonificaciones y desaf'' @ [0xED]
      @ u ''os '' @ [0xFA] @ u ''nicos.''),
     (AnyOf [u ''liga fantasy fichajes'', u ''mercado fantasy''],
      u ''El mercado de LALIGA Fantasy te permite fichar y vender jugadores seg'' @ [0xFA]
      @ u ''n su rendimiento real.''),
     (AnyOf [u ''liga fantasy temporada'', u ''fantasy 25/26''],
      u ''La temporada 2025/26 de LALIGA Fantasy incluye fichajes actualizados y nuevas estrellas como Mbapp''
      @ [0xE9] @ u '' y Lamine Yamal.''),
     (AnyOf [u ''segunda division'', u ''laliga hypermotion''],
      u ''La Segunda Divisi'' @ [0xF3] @ u ''n espa'' @ [0xF1]
      @ u ''ola, ahora llamada LaLiga Hypermotion, es donde los equipos luchan por subir a Primera.'')]"

definition smalltalk_rules_6 :: "(trigger \<times> ustr) list" where
  "smalltalk_rules_6 = [
     (AnyOf [u ''ascenso'', u ''subir a primera''],
      u ''El ascenso en LaLiga Hypermotion es el sue'' @ [0xF1]
      @ u ''o de todos los equipos, con playoffs llenos de emoci'' @ [0xF3] @ u ''n.''),
     (AnyOf [u ''descenso'', u ''bajar a segunda''],
      u ''El descenso siempre es duro, pero forma parte de la emoci'' @ [0xF3]
      @ u ''n de las ligas espa'' @ [0xF1] @ u ''olas.''),
     (AnyOf [u ''playoffs segunda'', u ''promocion segunda''],
      u ''Los playoffs de ascenso en Segunda son partidos de m'' @ [0xE1] @ u ''xima tensi'' @ [0xF3]
      @ u ''n y emoci'' @ [0xF3] @ u ''n.''),
     (AnyOf [u ''liga femenina'', u ''liga f''],
      u ''La Liga F es la m'' @ [0xE1] @ u ''xima categor'' @ [0xED] @ u ''a del f'' @ [0xFA]
      @ u ''tbol femenino en Espa'' @ [0xF1] @ u ''a, llena de talento y pasi'' @ [0xF3] @ u ''n.''),
     (AnyOf [u ''seleccion femenina'', u ''espana femenina''],
      u ''La selecci'' @ [0xF3] @ u ''n femenina de Espa'' @ [0xF1]
      @ u ''a es campeona del mundo, un orgullo para el f'' @ [0xFA] @ u ''tbol espa'' @ [0xF1]
      @ u ''ol.''),
     (AnyOf [u ''champions femenina'', u ''uwcl''],
      u ''La Champions femenina es el torneo m'' @ [0xE1]
      @ u ''s prestigioso de clubes, donde el Bar'' @ [0xE7] @ u ''a ha brillado en los '' @ [0xFA]
      @ u ''ltimos a'' @ [0xF1] @ u ''os, aunque el equipo con m'' @ [0xE1]
      @ u ''s champions es el OL Lyonnes.''),
     (AnyOf [u ''equipos historicos segunda'', u ''clasicos segunda''],
      u ''En Segunda han jugado equipos hist'' @ [0xF3]
      @ u ''ricos como Zaragoza, Sporting o Deportivo, con gran tradici'' @ [0xF3] @ u ''n.''),
     (AnyOf [u ''partidos de segunda'', u ''jornada segunda''],
      u ''Cada jornada de LaLiga Hypermotion es clave, porque todos buscan subir o evitar el descenso.''),
     (AnyOf [u ''futsal'', u ''futbol sala''],
      u ''El futsal es f'' @ [0xFA] @ u ''tbol en espacio reducido, lleno de t'' @ [0xE9]
      @ u ''cnica y velocidad.''),
     (AnyOf [u ''liga nacional de futbol sala'', u ''lnfs''],
      u ''La LNFS es la liga m'' @ [0xE1] @ u ''s importante de futsal en Espa'' @ [0xF1]
      @ u ''a, con equipos hist'' @ [0xF3] @ u ''ricos como Inter Movistar y Bar'' @ [0xE7] @ u ''a.''),
     (AnyOf [u ''mundial futsal'', u ''copa del mundo futsal''],
      u ''El Mundial de futsal re'' @ [0xFA]
      @ u ''ne a las mejores selecciones del mundo en un espect'' @ [0xE1] @ u ''culo '' @ [0xFA]
      @ u ''nico.''),
     (AnyOf [u ''seleccion espa'' @ [0xF1] @ u ''ola futsal'', u ''espana futsal''],
      u ''La selecci'' @ [0xF3] @ u ''n espa'' @ [0xF1]
      @ u ''ola de futsal es una potencia mundial, con m'' @ [0xFA] @ u ''ltiples t'' @ [0xED]
      @ u ''tulos europeos y mundiales.''),
     (AnyOf [u ''inter movistar'', u ''movistar inter''],
      u ''Movistar Inter es uno de los clubes m'' @ [0xE1] @ u ''s exitosos del futsal, con muchos t''
      @ [0xED] @ u ''tulos nacionales e internacionales.''),
     (AnyOf [u ''bar'' @ [0xE7] @ u ''a futsal'', u ''barcelona futsal''],
      u ''El Bar'' @ [0xE7] @ u ''a futsal es un referente en Espa'' @ [0xF1]
      @ u ''a y Europa, con gran talento en su plantilla.''),
     (AnyOf [u ''ricardinho''],
      u ''Ricardinho es considerado uno de los mejores jugadores de futsal de la historia, con magia en cada jugada.''),
     (AnyOf [u ''partido futsal'', u ''jornada futsal''],
      u ''Los partidos de futsal son r'' @ [0xE1]
      @ u ''pidos y emocionantes, cada jugada puede terminar en gol.''),
     (AnyOf [u ''tecnica futsal'', u ''habilidad futsal''],
      u ''El futsal destaca por la t'' @ [0xE9] @ u ''cnica individual, el control del bal'' @ [0xF3]
      @ u ''n y las jugadas espectaculares.''),
     (AnyOf [u ''champions futsal'', u ''uefa futsal''],
      u ''La UEFA Futsal Champions League es el torneo m'' @ [0xE1]
      @ u ''s prestigioso de clubes en Europa.''),
     (AnyOf [u ''wwe'', u ''lucha libre''],
      u ''Esto no es WWE, pero en el f'' @ [0xFA] @ u ''tbol tambi'' @ [0xE9]
      @ u ''n hay choques que parecen combates.''),
     (AnyOf [u ''john cena'', u ''the rock''],
      u ''John Cena y The Rock son estrellas de WWE, pero en el f'' @ [0xFA] @ u ''tbol los ''
      @ [0xED] @ u ''dolos tambi'' @ [0xE9] @ u ''n levantan pasiones.''),
     (AnyOf [u ''undertaker''],
      u ''El Undertaker dominaba el ring, igual que algunos equipos dominan el campo de f'' @ [0xFA]
      @ u ''tbol.''),
     (AnyOf [u ''naruto''],
      u ''Naruto so'' @ [0xF1] @ u ''aba con ser Hokage, igual que muchos sue'' @ [0xF1]
      @ u ''an con ser campeones de liga.''),
     (AnyOf [u ''sasuke''],
      u ''Sasuke buscaba poder, como un delantero que siempre quiere marcar m'' @ [0xE1]
      @ u ''s goles.''),
     (AnyOf [u ''kamehameha'', u ''rasengan''],
      u ''Eso suena m'' @ [0xE1] @ u ''s a anime, pero en el f'' @ [0xFA] @ u ''tbol tambi'' @ [0xE9]
      @ u ''n hay tiros que parecen poderes especiales.''),
     (AnyOf [u ''uchiha'', u ''sharingan''],
      u ''El Sharingan todo lo ve, como un buen mediocentro que controla el partido.''),
     (AnyOf [u ''wrestlemania''],
      u ''WrestleMania es el gran evento de WWE, como una final de Champions en el f'' @ [0xFA]
      @ u ''tbol.''),
     (AnyOf [u ''anime'', u ''manga''],
      u ''El anime tiene batallas '' @ [0xE9] @ u ''picas, igual que el f'' @ [0xFA]
      @ u ''tbol tiene partidos inolvidables.''),
     (AnyOf [u ''hokage''],
      u ''Ser Hokage en Naruto es como levantar la Copa del Mundo en f'' @ [0xFA] @ u ''tbol: el m''
      @ [0xE1] @ u ''ximo sue'' @ [0xF1] @ u ''o.''),
     (AnyOf [u ''triple h'', u ''pedigree''],
      u ''El '' @ [0x27] @ u ''Pedigree'' @ [0x27]
      @ u '' de Triple H es letal en WWE, como un golazo en el '' @ [0xFA] @ u ''ltimo minuto.''),
     (AnyOf [u ''rey mysterio'', u ''619''],
      u ''El 619 de Rey Mysterio es pura agilidad, igual que un regate el'' @ [0xE9]
      @ u ''ctrico en f'' @ [0xFA] @ u ''tbol.'')]"

definition smalltalk_rules_7 :: "(trigger \<times> ustr) list" where
  "smalltalk_rules_7 = [
     (AnyOf [u ''roman reigns'', u ''jefe tribal''],
      u ''Roman Reigns domina WWE como un capit'' @ [0xE1] @ u ''n que manda en el vestuario de f''
      @ [0xFA] @ u ''tbol.''),
     (AnyOf [u ''naruto vs sasuke''],
      u ''Naruto vs Sasuke es como un Cl'' @ [0xE1] @ u ''sico Bar'' @ [0xE7]
      @ u ''a-Madrid: rivalidad eterna y llena de emoci'' @ [0xF3] @ u ''n.''),
     (AnyOf [u ''itachi'', u ''uchiha''],
      u ''Itachi ve'' @ [0xED]
      @ u ''a todo con el Sharingan, como un mediocentro que controla el ritmo del partido.''),
     (AnyOf [u ''madara''],
      u ''Madara Uchiha era imparable, como un delantero que no deja de marcar goles.''),
     (AnyOf [u ''jiraiya'', u ''sabio''],
      u ''Jiraiya ense'' @ [0xF1] @ u ''aba a Naruto, igual que un buen entrenador gu'' @ [0xED]
      @ u ''a a su equipo.''),
     (AnyOf [u ''wrestlemania''],
      u ''WrestleMania es el evento m'' @ [0xE1] @ u ''ximo de WWE, como una final de Champions en f''
      @ [0xFA] @ u ''tbol.''),
     (AnyOf [u ''hokage''],
      u ''Ser Hokage en Naruto es como levantar la Copa del Mundo: el sue'' @ [0xF1] @ u ''o m''
      @ [0xE1] @ u ''s grande.''),
     (AnyOf [u ''jutsu'', u ''tecnica ninja''],
      u ''Los jutsus en Naruto son como las jugadas ensayadas en f'' @ [0xFA]
      @ u ''tbol: pura estrategia y sorpresa.''),
     (AnyOf [u ''brock lesnar'', u ''suplex''],
      u ''Brock Lesnar hac'' @ [0xED]
      @ u ''a suplex en WWE, como un defensa que despeja con fuerza cada bal'' @ [0xF3] @ u ''n.''),
     (AnyOf [u ''randy orton'', u ''rko''],
      u ''El RKO de Randy Orton es inesperado, como un gol de chilena en el '' @ [0xFA]
      @ u ''ltimo minuto.''),
     (AnyOf [u ''kane'', u ''demonio rojo''],
      u ''Kane impon'' @ [0xED]
      @ u ''a respeto en WWE, igual que un portero que intimida a los delanteros.''),
     (AnyOf [u ''naruto run'', u ''correr como naruto''],
      u ''Correr como Naruto es como un extremo desbordando por la banda con velocidad imparable.''),
     (AnyOf [u ''gaara'', u ''arena''],
      u ''Gaara controlaba la arena, como un mediocentro que controla el ritmo del partido.''),
     (AnyOf [u ''rock lee'', u ''taijutsu''],
      u ''Rock Lee entrenaba sin descanso, como un jugador que nunca se rinde en el campo.''),
     (AnyOf [u ''orochimaru'', u ''serpiente''],
      u ''Orochimaru era astuto y peligroso, como un delantero que aparece donde menos lo esperas.''),
     (AnyOf [u ''naruto shippuden'', u ''shippuden''],
      u ''Naruto Shippuden mostr'' @ [0xF3] @ u '' batallas '' @ [0xE9]
      @ u ''picas, como las finales de Champions en f'' @ [0xFA] @ u ''tbol.''),
     (AnyOf [u ''campeon wwe'', u ''titulo wwe''],
      u ''Ser campe'' @ [0xF3] @ u ''n en WWE es como levantar la Copa del Mundo en f'' @ [0xFA]
      @ u ''tbol: gloria absoluta.''),
     (AnyOf [u ''akatsuki'', u ''villanos naruto''],
      u ''La Akatsuki era temida en Naruto, como un equipo rival que nadie quiere enfrentar.''),
     (AnyOf [u ''haku''],
      u ''Haku dominaba el hielo en Naruto, como un portero que congela cada intento de gol.''),
     (AnyOf [u ''stephanie vaquer''],
      u ''Stephanie Vaquer, '' @ [0x27] @ u ''La Primera'' @ [0x27]
      @ u '', como la hinchada que abre el camino y nunca deja de alentar.''),
     (AnyOf [u ''rhea ripley''],
      u ''Rhea Ripley juega con Brutalidad, como un mediocentro que barre todo lo que pasa por su zona.''),
     (AnyOf [u ''dominik mysterio''],
      u ''El sucio Dom, el ginec'' @ [0xF3]
      @ u ''logo del ring, es como ese equipo que siempre hace trampas para ganar.''),
     (AnyOf [u ''tenten''],
      u ''Tenten dominaba las armas ninja, como un jugador que domina todas las posiciones en el campo.''),
     (AnyOf [u ''bron breakker''],
      u ''Bron Breakker es pura fuerza en WWE, como un delantero tanque que arrasa defensas.''),
     (AnyOf [u ''jey uso'', u ''uso''],
      u ''Four letters, one word, YEET!''),
     (AnyOf [u ''chelsea green''],
      u ''Chelsea Green destaca en WWE, como una jugadora que siempre sorprende con su estilo.''),
     (AnyOf [u ''kiba'', u ''akamaru''],
      u ''Kiba y Akamaru eran inseparables, como un d'' @ [0xFA]
      @ u ''o de delanteros que siempre juegan en pareja.''),
     (AnyOf [u ''sheamus'', u ''brogue kick''],
      u ''El Brogue Kick de Sheamus es devastador, como un disparo de fuera del '' @ [0xE1]
      @ u ''rea que rompe la red.''),
     (AnyOf [u ''itachi sacrificio'', u ''itachi hermano''],
      u ''El sacrificio de Itachi por Sasuke es como un capit'' @ [0xE1]
      @ u ''n que da todo por su equipo.''),
     (AnyOf [u ''itachi genjutsu'', u ''genjutsu''],
      u ''El genjutsu de Itachi confund'' @ [0xED] @ u ''a rivales, como una jugada t'' @ [0xE1]
      @ u ''ctica que descoloca a la defensa.'')]"

definition smalltalk_rules :: "(trigger \<times> ustr) list" where
  "smalltalk_rules =
     smalltalk_rules_1 @ smalltalk_rules_2 @ smalltalk_rules_3 @ smalltalk_rules_4
     @ smalltalk_rules_5 @ smalltalk_rules_6 @ smalltalk_rules_7"

definition get_smalltalk :: "ucd \<Rightarrow> ustr \<Rightarrow> ustr option" where
  "get_smalltalk U question =
     (let q = normalize_text U question in
      map_option snd (find (\<lambda>(t, answer). fires t q) smalltalk_rules))"

section \<open>Structured fact matchers\<close>

text \<open>
  Every matcher fetches a table and runs \<^verbatim>\<open>for row in rows: if <name> in q: return f"..."\<close>,
  ending in \<^verbatim>\<open>return None\<close>. \<open>first_match\<close> is that loop: the body raises, returns an
  answer, or goes on to the next row.
\<close>

fun first_match :: "('a \<Rightarrow> error + ustr option) \<Rightarrow> 'a list \<Rightarrow> error + ustr option" where
  "first_match body [] = Inr None"
| "first_match body (r # rs) =
     (case body r of Inl e \<Rightarrow> Inl e | Inr (Some a) \<Rightarrow> Inr (Some a) | Inr None \<Rightarrow> first_match body rs)"

definition ret :: "error + ustr \<Rightarrow> error + ustr option" where
  "ret m = bind_err m (\<lambda>a. Inr (Some a))"

definition get_competition_info :: "ucd \<Rightarrow> store \<Rightarrow> ustr \<Rightarrow> error + ustr option" where
  "get_competition_info U S question =
     (let q = str_lower U question in
      bind_err (run S (Query ''competitions''
          [''id'', ''name'', ''season'', ''type'', ''gender'', ''active''] None None None)) (\<lambda>competitions.
        first_match (\<lambda>comp.
          bind_err (getitem comp ''name'') (\<lambda>name.
          bind_err (val_lower U name) (\<lambda>n.
            if sublist n q
            then ret (fmt comp [Lit (u ''La competici'' @ [0xF3] @ u ''n ''), Field ''name'',
                   Lit (u '' (temporada ''), Field ''season'', Lit (u ''), tipo ''), Field ''type'',
                   Lit (u '', g'' @ [0xE9] @ u ''nero ''), Field ''gender'',
                   Lit (u '', activa: ''), Field ''active'', Lit (u ''.'')])
            else Inr None))) competitions))"

definition get_information_team_info :: "ucd \<Rightarrow> store \<Rightarrow> ustr \<Rightarrow> error + ustr option" where
  "get_information_team_info U S question =
     (let q = str_lower U question in
      bind_err (run S (Query ''information_team''
          [''id'', ''name'', ''city'', ''province'', ''president'', ''founded_year'', ''stadium'']
          None None None)) (\<lambda>teams.
        first_match (\<lambda>team.
          bind_err (getitem team ''name'') (\<lambda>name.
          bind_err (val_lower U name) (\<lambda>n.
            if sublist n q
            then ret (fmt team [Lit (u ''El equipo ''), Field ''name'',
                   Lit (u '' est'' @ [0xE1] @ u '' en ''), Field ''city'', Lit (u '' (''),
                   Field ''province'', Lit (u ''), presidente ''), Field ''president'',
                   Lit (u '', fundado en ''), Field ''founded_year'', Lit (u '', estadio ''),
                   Field ''stadium'', Lit (u ''.'')])
            else Inr None))) teams))"

definition get_player_info :: "ucd \<Rightarrow> store \<Rightarrow> ustr \<Rightarrow> error + ustr option" where
  "get_player_info U S question =
     (let q = str_lower U question in
      bind_err (run S (Query ''players''
          [''id'', ''name'', ''nationality'', ''position'', ''jersey_number'', ''height'', ''weight'',
           ''team_id''] None None None)) (\<lambda>players.
        first_match (\<lambda>player.
          bind_err (getitem player ''name'') (\<lambda>name.
          bind_err (val_lower U name) (\<lambda>n.
            if sublist n q
            then bind_err (getitem player ''team_id'') (\<lambda>team_id.
                 bind_err (run S (Query ''teams'' [''name''] (Some (''id'', team_id)) None None)) (\<lambda>team.
                 bind_err (name_or_unknown team) (\<lambda>team_name.
                   ret (fmt player [Field ''name'', Lit (u '' juega como ''), Field ''position'',
                     Lit (u '', dorsal ''), Field ''jersey_number'', Lit (u '', nacionalidad ''),
                     Field ''nationality'', Lit (u '', altura ''), Field ''height'',
                     Lit (u ''m, peso ''), Field ''weight'', Lit (u ''kg, equipo ''),
                     Lit (py_str team_name), Lit (u ''.'')]))))
            else Inr None))) players))"

definition get_referee_info :: "ucd \<Rightarrow> store \<Rightarrow> ustr \<Rightarrow> error + ustr option" where
  "get_referee_info U S question =
     (let q = str_lower U question in
      bind_err (run S (Query ''referees'' [''id'', ''name'', ''nationality'', ''debut'']
          None None None)) (\<lambda>referees.
        first_match (\<lambda>ref.
          bind_err (getitem ref ''name'') (\<lambda>name.
          bind_err (val_lower U name) (\<lambda>n.
            if sublist n q
            then ret (fmt ref [Lit ([0xC1] @ u ''rbitro ''), Field ''name'',
                   Lit (u '', nacionalidad ''), Field ''nationality'', Lit (u '', debut ''),
                   Field ''debut'', Lit (u ''.'')])
            else Inr None))) referees))"

definition get_referee_stats_info :: "ucd \<Rightarrow> store \<Rightarrow> ustr \<Rightarrow> error + ustr option" where
  "get_referee_stats_info U S question =
     (let q = str_lower U question in
      bind_err (run S (Query ''referee_stats''
          [''referee_id'', ''yellow_cards'', ''red_cards'', ''wins'', ''draws'', ''defeats'']
          None None None)) (\<lambda>stats.
        first_match (\<lambda>stat.
          bind_err (getitem stat ''referee_id'') (\<lambda>referee_id.
          bind_err (run S (Query ''referees'' [''name''] (Some (''id'', referee_id)) None None)) (\<lambda>ref.
          bind_err (name_or_unknown ref) (\<lambda>ref_name.
          bind_err (val_lower U ref_name) (\<lambda>n.
            if sublist n q
            then ret (fmt stat [Lit (u ''Estad'' @ [0xED] @ u ''sticas de ''), Lit (py_str ref_name),
                   Lit (u '': amarillas ''), Field ''yellow_cards'', Lit (u '', rojas ''),
                   Field ''red_cards'', Lit (u '', victorias ''), Field ''wins'',
                   Lit (u '', empates ''), Field ''draws'', Lit (u '', derrotas ''),
                   Field ''defeats'', Lit (u ''.'')])
            else Inr None))))) stats))"

definition get_stadium_info :: "ucd \<Rightarrow> store \<Rightarrow> ustr \<Rightarrow> error + ustr option" where
  "get_stadium_info U S question =
     (let q = str_lower U question in
      bind_err (run S (Query ''stadiums''
          [''id'', ''name'', ''city'', ''capacity'', ''year_construction''] None None None)) (\<lambda>stadiums.
        first_match (\<lambda>stadium.
          bind_err (getitem stadium ''name'') (\<lambda>name.
          bind_err (val_lower U name) (\<lambda>n.
            if sublist n q
            then ret (fmt stadium [Lit (u ''El estadio ''), Field ''name'',
                   Lit (u '' est'' @ [0xE1] @ u '' en ''), Field ''city'', Lit (u '', capacidad ''),
                   Field ''capacity'', Lit (u '', construido en ''), Field ''year_construction'',
                   Lit (u ''.'')])
            else Inr None))) stadiums))"

definition get_team_by_stadium :: "ucd \<Rightarrow> store \<Rightarrow> ustr \<Rightarrow> error + ustr option" where
  "get_team_by_stadium U S question =
     (let q = normalize_text U question in
      bind_err (run S (Query ''stadiums'' [''id'', ''name''] None None None)) (\<lambda>stadiums.
        first_match (\<lambda>stadium.
          bind_err (getitem stadium ''name'') (\<lambda>name.
          bind_err (val_normalize U name) (\<lambda>n.
            if sublist n q
            then bind_err (getitem stadium ''id'') (\<lambda>stadium_id.
                 bind_err (run S (Query ''teams'' [''name''] (Some (''stadium_id'', stadium_id))
                     None None)) (\<lambda>team.
                   case team of
                     t # _ \<Rightarrow>
                       bind_err (getitem stadium ''name'') (\<lambda>sn.
                       bind_err (getitem t ''name'') (\<lambda>tn.
                         Inr (Some (u ''El equipo que juega en '' @ py_str sn @ u '' es ''
                               @ py_str tn @ u ''.''))))
                   | [] \<Rightarrow>
                       ret (fmt stadium [Lit (u ''No se encuentra equipo asociado al estadio ''),
                         Field ''name'', Lit (u ''.'')])))
            else Inr None))) stadiums))"

definition get_player_stats :: "ucd \<Rightarrow> store \<Rightarrow> ustr \<Rightarrow> error + ustr option" where
  "get_player_stats U S question =
     (let q = str_lower U question in
      bind_err (run S (Query ''stats''
          [''player_id'', ''goals'', ''assists'', ''games_played'', ''yellow_card'', ''red_card'']
          None None None)) (\<lambda>stats.
        first_match (\<lambda>stat.
          bind_err (getitem stat ''player_id'') (\<lambda>player_id.
          bind_err (run S (Query ''players'' [''name''] (Some (''id'', player_id)) None None)) (\<lambda>player.
          bind_err (name_or_unknown player) (\<lambda>player_name.
          bind_err (val_lower U player_name) (\<lambda>n.
            if sublist n q
            then ret (fmt stat [Lit (u ''Estad'' @ [0xED] @ u ''sticas de ''),
                   Lit (py_str player_name), Lit (u '': goles ''), Field ''goals'',
                   Lit (u '', asistencias ''), Field ''assists'', Lit (u '', partidos ''),
                   Field ''games_played'', Lit (u '', amarillas ''), Field ''yellow_card'',
                   Lit (u '', rojas ''), Field ''red_card'', Lit (u ''.'')])
            else Inr None))))) stats))"

definition get_team_info :: "ucd \<Rightarrow> store \<Rightarrow> ustr \<Rightarrow> error + ustr option" where
  "get_team_info U S question =
     (let q = normalize_text U question in
      bind_err (run S (Query ''teams''
          [''id'', ''name'', ''city'', ''province'', ''founded_year'', ''stadium_id'']
          None None None)) (\<lambda>teams.
        first_match (\<lambda>team.
          bind_err (getitem team ''name'') (\<lambda>name.
          bind_err (val_normalize U name) (\<lambda>n.
            if sublist n q
            then bind_err (getitem team ''stadium_id'') (\<lambda>stadium_id.
                 bind_err (run S (Query ''stadiums'' [''name''] (Some (''id'', stadium_id))
                     None None)) (\<lambda>stadium.
                 bind_err (name_or_unknown stadium) (\<lambda>stadium_name.
                   ret (fmt team [Lit (u ''Equipo ''), Field ''name'', Lit (u '' de ''), Field ''city'',
                     Lit (u '' (''), Field ''province'', Lit (u ''), fundado en ''),
                     Field ''founded_year'', Lit (u '', estadio ''), Lit (py_str stadium_name),
                     Lit (u ''.'')]))))
            else Inr None))) teams))"

definition get_team_city :: "ucd \<Rightarrow> store \<Rightarrow> ustr \<Rightarrow> error + ustr option" where
  "get_team_city U S question =
     (let q = normalize_text U question in
      bind_err (run S (Query ''teams'' [''name'', ''city''] None None None)) (\<lambda>teams.
        first_match (\<lambda>team.
          bind_err (getitem team ''name'') (\<lambda>name.
          bind_err (val_normalize U name) (\<lambda>n.
            if sublist n q \<and> sublist (u ''ciudad'') q
            then ret (fmt team [Lit (u ''El ''), Field ''name'',
                   Lit (u '' est'' @ [0xE1] @ u '' en la ciudad de ''), Field ''city'', Lit (u ''.'')])
            else Inr None))) teams))"

section \<open>Semantic retrieval\<close>

text \<open>
  Scores are Python floats; the model computes them in the reals, so rounding, overflow
  and NaN are outside it.
  \<^verbatim>\<open>
  def cosine_similarity(a: List[float], b: List[float]) -> float:
      dot = sum(x*y for x,y in zip(a,b))
      na = math.sqrt(sum(x*x for x in a)) or 1e-10
      nb = math.sqrt(sum(y*y for y in b)) or 1e-10
      return dot/(na*nb)
  \<close>
  \<open>a\<close> is the query vector, a list of floats; \<open>b\<close> comes from a row and may hold
  anything: multiplying by an element that is not a number raises \<^verbatim>\<open>TypeError\<close>.
\<close>

fun num :: "elem \<Rightarrow> error + real" where
  "num (Num x) = Inr x"
| "num NotNum = Inl TypeError"

fun dot_zip :: "real list \<Rightarrow> elem list \<Rightarrow> error + real" where
  "dot_zip (x # xs) (y # ys) =
     bind_err (num y) (\<lambda>v. bind_err (dot_zip xs ys) (\<lambda>s. Inr (x * v + s)))"
| "dot_zip xs ys = Inr 0"

fun sum_squares :: "elem list \<Rightarrow> error + real" where
  "sum_squares [] = Inr 0"
| "sum_squares (y # ys) = bind_err (num y) (\<lambda>v. bind_err (sum_squares ys) (\<lambda>s. Inr (v * v + s)))"

definition norm_or_eps :: "real \<Rightarrow> real" where
  "norm_or_eps s = (let n = sqrt s in if n = 0 then 1 / 10 ^ 10 else n)"

definition cosine_similarity :: "real list \<Rightarrow> elem list \<Rightarrow> error + real" where
  "cosine_similarity a b =
     bind_err (dot_zip a b) (\<lambda>dot.
     let na = norm_or_eps (sum_list (map (\<lambda>x. x * x) a)) in
     bind_err (sum_squares b) (\<lambda>sb.
     let nb = norm_or_eps sb in
     Inr (dot / (na * nb))))"

text \<open>
  \<^verbatim>\<open>
  def retrieve_context(question: str, k: int = 5, threshold: float = 0.7) -> List[Dict[str, Any]]:
      qvec = embed_model.encode(question).tolist()
      rows = supabase.table("document_embeddings").select("*").execute().data or []
      scored = []
      for r in rows:
          emb = r.get("embedding")
          if not isinstance(emb, list) or len(emb) == 0:
              continue
          try:
              sim = cosine_similarity(qvec, emb)
              if sim >= threshold:  # filtra ruido
                  r["_score"] = sim
                  scored.append(r)
          except Exception as e:
              print("Error calculando similitud:", e, r)
      scored.sort(key=lambda x: x["_score"], reverse=True)
      return scored[:k]
  \<close>
  A scored row is the row paired with its \<^verbatim>\<open>_score\<close>. The sort is stable and descending;
  \<^verbatim>\<open>scored[:k]\<close> with a negative \<open>k\<close> drops the last \<open>-k\<close> rows.
\<close>

fun score_rows :: "real list \<Rightarrow> real \<Rightarrow> chunk list \<Rightarrow> (chunk \<times> real) list" where
  "score_rows qvec threshold [] = []"
| "score_rows qvec threshold (r # rs) =
     (case embedding r of
        NotAList \<Rightarrow> score_rows qvec threshold rs
      | EList emb \<Rightarrow>
          if emb = [] then score_rows qvec threshold rs
          else (case cosine_similarity qvec emb of
                  Inl e \<Rightarrow> score_rows qvec threshold rs
                | Inr sim \<Rightarrow>
                    if sim \<ge> threshold then (r, sim) # score_rows qvec threshold rs
                    else score_rows qvec threshold rs))"

definition slice_to :: "int \<Rightarrow> 'a list \<Rightarrow> 'a list" where
  "slice_to k xs = (if 0 \<le> k then take (nat k) xs else take (nat (int (length xs) + k)) xs)"

definition retrieve_context ::
  "(ustr \<Rightarrow> error + real list) \<Rightarrow> store \<Rightarrow> ustr \<Rightarrow> int \<Rightarrow> real \<Rightarrow> error + (chunk \<times> real) list" where
  "retrieve_context E S question k threshold =
     bind_err (E question) (\<lambda>qvec.
     bind_err (corpus S) (\<lambda>rows.
       Inr (slice_to k (sort_key (\<lambda>x. - snd x) (score_rows qvec threshold rows)))))"

section \<open>Extractive answer\<close>

text \<open>
  \<^verbatim>\<open>
  def generate_answer(question: str, chunks: List[Dict[str, Any]]) -> str:
      if not chunks:
          return "No hay datos suficientes en la BBDD para responder con precisi\u00f3n."
      top = next((c for c in chunks if c.get("content")), None)
      if not top:
          return "No se encuentra informaci\u00f3n en la base de datos."
      text = (top["content"] or "").strip()
      candidate = text.split("\n")[0].strip()
      if "." in candidate:
          candidate = candidate.split(".")[0].strip() + "."
      if not candidate or len(candidate) < 10:
          candidate = (text[:200] + "...") if len(text) > 200 else text
      if not candidate or candidate.strip() == "":
          return "No se encuentra informaci\u00f3n en la base de datos."
      return candidate
  \<close>
  Code point 10 is the line feed, 46 the full stop.
\<close>

definition no_data_msg :: ustr where
  "no_data_msg = u ''No hay datos suficientes en la BBDD para responder con precisi'' @ [0xF3] @ u ''n.''"

definition not_found_msg :: ustr where
  "not_found_msg = u ''No se encuentra informaci'' @ [0xF3] @ u ''n en la base de datos.''"

definition has_content :: "chunk \<Rightarrow> bool" where
  "has_content c = (case content c of None \<Rightarrow> False | Some s \<Rightarrow> s \<noteq> [])"

definition generate_answer :: "ustr \<Rightarrow> chunk list \<Rightarrow> ustr" where
  "generate_answer question chunks =
     (if chunks = [] then no_data_msg
      else case find has_content chunks of
        None \<Rightarrow> not_found_msg
      | Some top_chunk \<Rightarrow>
          (let text = strip (case content top_chunk of None \<Rightarrow> [] | Some s \<Rightarrow> s);
               first_line = strip (takeWhile (\<lambda>c. c \<noteq> 10) text);
               sentence = (if 46 \<in> set first_line
                           then strip (takeWhile (\<lambda>c. c \<noteq> 46) first_line) @ [46]
                           else first_line);
               candidate = (if sentence = [] \<or> length sentence < 10
                            then (if length text > 200 then take 200 text @ u ''...'' else text)
                            else sentence)
           in if candidate = [] \<or> strip candidate = [] then not_found_msg else candidate))"

section \<open>The chat endpoint\<close>

record source_ref =
  ref_table :: ustr
  ref_id :: val
  ref_score :: real

record chat_response =
  answer :: ustr
  sources :: "source_ref list"

text \<open>\<^verbatim>\<open>if answer:\<close> holds of a string that is neither \<^verbatim>\<open>None\<close> nor empty.\<close>

definition truthy :: "ustr option \<Rightarrow> ustr option" where
  "truthy a = (case a of None \<Rightarrow> None | Some s \<Rightarrow> if s = [] then None else Some s)"

definition funcs :: "(ucd \<Rightarrow> store \<Rightarrow> ustr \<Rightarrow> error + ustr option) list" where
  "funcs = [get_competition_info, get_information_team_info, get_player_info, get_referee_info,
     get_referee_stats_info, get_stadium_info, get_team_by_stadium, get_player_stats,
     get_team_info, get_team_city]"

fun try_funcs :: "(ucd \<Rightarrow> store \<Rightarrow> ustr \<Rightarrow> error + ustr option) list \<Rightarrow> ucd \<Rightarrow> store \<Rightarrow> ustr
    \<Rightarrow> error + ustr option" where
  "try_funcs [] U S q = Inr None"
| "try_funcs (func # fs) U S q =
     (case func U S q of
        Inl e \<Rightarrow> Inl e
      | Inr a \<Rightarrow> (case truthy a of Some s \<Rightarrow> Inr (Some s) | None \<Rightarrow> try_funcs fs U S q))"

definition round4 :: "real \<Rightarrow> real" where
  "round4 x = of_int (round (x * 10000)) / 10000"

definition make_source :: "chunk \<times> real \<Rightarrow> source_ref" where
  "make_source c =
     \<lparr> ref_table = (case source_table (fst c) of None \<Rightarrow> u ''unknown'' | Some t \<Rightarrow> t),
       ref_id = (case source_id (fst c) of None \<Rightarrow> VStr (u ''unknown'') | Some i \<Rightarrow> i),
       ref_score = round4 (snd c) \<rparr>"

definition fallback_msg :: ustr where
  "fallback_msg = u ''No hay datos suficientes en la BBDD.''"

text \<open>
  \<^verbatim>\<open>
  def chat(req: ChatRequest) -> ChatResponse:
      q = normalize(req.question)
      answer = get_top_entity(q)
      if answer:
          return ChatResponse(answer=answer, sources=[])
      answer = get_smalltalk(q)
      if answer:
          return ChatResponse(answer=answer, sources=[])
      for func in [get_competition_info, ..., get_team_city]:
          answer = func(q)
          if answer:
              return ChatResponse(answer=answer, sources=[])
      chunks = retrieve_context(req.question)
      if chunks:
          answer = generate_answer(req.question, chunks)
          sources = [SourceRef(table=c.get("source_table", "unknown"),
                               id=c.get("source_id", "unknown"),
                               score=round(c["_score"], 4)) for c in chunks]
          return ChatResponse(answer=answer, sources=sources)
      return ChatResponse(answer="No hay datos suficientes en la BBDD.", sources=[])
  \<close>
  \<open>E\<close> is the embedding model, \<open>S\<close> the store; the result is the response or the
  exception that leaves the function.
\<close>

definition chat ::
  "ucd \<Rightarrow> (ustr \<Rightarrow> error + real list) \<Rightarrow> store \<Rightarrow> ustr \<Rightarrow> error + chat_response" where
  "chat U E S question =
     (let q = normalize_text U question in
      bind_err (get_top_entity U S q) (\<lambda>a1.
        case truthy a1 of
          Some s \<Rightarrow> Inr \<lparr> answer = s, sources = [] \<rparr>
        | None \<Rightarrow>
           (case truthy (get_smalltalk U q) of
              Some s \<Rightarrow> Inr \<lparr> answer = s, sources = [] \<rparr>
            | None \<Rightarrow>
               bind_err (try_funcs funcs U S q) (\<lambda>a3.
                 case a3 of
                   Some s \<Rightarrow> Inr \<lparr> answer = s, sources = [] \<rparr>
                 | None \<Rightarrow>
                    bind_err (retrieve_context E S question 5 (7 / 10)) (\<lambda>chunks.
                      if chunks \<noteq> []
                      then Inr \<lparr> answer = generate_answer question (map fst chunks),
                                 sources = map make_source chunks \<rparr>
                      else Inr \<lparr> answer = fallback_msg, sources = [] \<rparr>)))))"

section \<open>A relational store\<close>

text \<open>
  For the concrete examples, the store holds tables with a schema. A request that names a
  table or a column the schema does not have fails, as the database rejects it; otherwise
  the rows are filtered, ordered (descending, stably, by an integer column), cut and
  projected.
\<close>

record table_data =
  tcols :: "string list"
  trows :: "row list"

type_synonym database = "(string \<times> table_data) list"

definition order_key :: "string \<Rightarrow> row \<Rightarrow> int" where
  "order_key c r = (case map_of r c of Some (VInt i) \<Rightarrow> i | _ \<Rightarrow> 0)"

definition db_run :: "database \<Rightarrow> query \<Rightarrow> error + row list" where
  "db_run db q =
     (case map_of db (tbl q) of
        None \<Rightarrow> Inl StoreError
      | Some t \<Rightarrow>
          if \<not> list_all (\<lambda>c. c \<in> set (tcols t))
                 (cols q @ (case eq_filter q of None \<Rightarrow> [] | Some (c, v) \<Rightarrow> [c])
                         @ (case order_desc q of None \<Rightarrow> [] | Some c \<Rightarrow> [c]))
          then Inl StoreError
          else
            (let r1 = (case eq_filter q of None \<Rightarrow> trows t
                       | Some (c, v) \<Rightarrow> filter (\<lambda>r. v \<noteq> VNone \<and> map_of r c = Some v) (trows t));
                 r2 = (case order_desc q of None \<Rightarrow> r1
                       | Some c \<Rightarrow> sort_key (\<lambda>r. - order_key c r) r1);
                 r3 = (case row_limit q of None \<Rightarrow> r2 | Some n \<Rightarrow> take n r2)
             in Inr (map (filter (\<lambda>(k, v). k \<in> set (cols q))) r3)))"

definition db_store :: "database \<Rightarrow> chunk list \<Rightarrow> store" where
  "db_store db docs = \<lparr> run = db_run db, corpus = Inr docs \<rparr>"

section \<open>Predicates of the statements\<close>

text \<open>
  What \<^verbatim>\<open>str.lower\<close> can put in place of one code point: its lowercase mapping, or one of
  the two small sigmas for capital sigma.
\<close>

definition lower_out :: "ucd \<Rightarrow> nat \<Rightarrow> nat list" where
  "lower_out U c = (if c = 0x3A3 then [0x3C2, 0x3C3] else to_lower U c)"

text \<open>
  Two facts of the Unicode Character Database: a canonical decomposition is full (its
  characters have no further decomposition), and a character of the decomposition of a
  lowercased character, unless it is a nonspacing mark, is its own lowercase form.
\<close>

definition ucd_stable :: "ucd \<Rightarrow> bool" where
  "ucd_stable U \<longleftrightarrow>
     (\<forall>c. \<forall>d \<in> set (canon_decomp U c). canon_decomp U d = [d]) \<and>
     (\<forall>c. \<forall>l \<in> set (lower_out U c). \<forall>d \<in> set (canon_decomp U l).
        \<not> is_mn U d \<longrightarrow> d \<noteq> 0x3A3 \<and> to_lower U d = [d])"


section \<open>Example data\<close>


definition demo_db :: database where
  "demo_db = [
     (''stadiums'', \<lparr> tcols = [''id'', ''name'', ''city'', ''capacity'', ''year_construction''],
        trows = [[(''id'', VInt 1), (''name'', VStr (u ''Metropolitano'')), (''city'', VStr (u ''Madrid'')),
                  (''capacity'', VInt 70460), (''year_construction'', VInt 2017)],
                 [(''id'', VInt 2), (''name'', VStr (u ''Mestalla'')), (''city'', VStr (u ''Valencia'')),
                  (''capacity'', VInt 49430), (''year_construction'', VInt 1923)]] \<rparr>),
     (''teams'', \<lparr> tcols = [''id'', ''name'', ''city'', ''province'', ''founded_year'', ''stadium_id''],
        trows = [[(''id'', VInt 3), (''name'', VStr (u ''Atl'' @ [0xE9] @ u ''tico'')),
                  (''city'', VStr (u ''Madrid'')), (''province'', VStr (u ''Madrid'')),
                  (''founded_year'', VInt 1903), (''stadium_id'', VInt 1)]] \<rparr>),
     (''players'', \<lparr> tcols = [''id'', ''name'', ''nationality'', ''position'', ''jersey_number'',
                             ''height'', ''weight'', ''team_id''],
        trows = [[(''id'', VInt 7), (''name'', VStr (u ''Jos'' @ [0xE9])),
                  (''nationality'', VStr (u ''Uruguay'')), (''position'', VStr (u ''defensa'')),
                  (''jersey_number'', VInt 2), (''height'', VInt 2), (''weight'', VInt 80),
                  (''team_id'', VInt 3)]] \<rparr>),
     (''stats'', \<lparr> tcols = [''player_id'', ''goals'', ''assists'', ''games_played'', ''yellow_card'',
                           ''red_card''],
        trows = [[(''player_id'', VInt 7), (''goals'', VInt 4), (''assists'', VInt 1),
                  (''games_played'', VInt 30), (''yellow_card'', VInt 9), (''red_card'', VInt 1)]] \<rparr>),
     (''referees'', \<lparr> tcols = [''id'', ''name'', ''nationality'', ''debut''],
        trows = [[(''id'', VInt 5), (''name'', VStr (u ''Gil'')), (''nationality'', VStr (u ''Espa'' @ [0xF1] @ u ''a'')),
                  (''debut'', VInt 2009)]] \<rparr>),
     (''referee_stats'', \<lparr> tcols = [''referee_id'', ''yellow_cards'', ''red_cards'', ''wins'', ''draws'',
                                   ''defeats''],
        trows = [[(''referee_id'', VInt 5), (''yellow_cards'', VInt 120), (''red_cards'', VInt 6),
                  (''wins'', VInt 20), (''draws'', VInt 9), (''defeats'', VInt 11)]] \<rparr>),
     (''competitions'', \<lparr> tcols = [''id'', ''name'', ''season'', ''type'', ''gender'', ''active''],
        trows = [[(''id'', VInt 1), (''name'', VStr (u ''LaLiga'')), (''season'', VStr (u ''2024'')),
                  (''type'', VStr (u ''liga'')), (''gender'', VStr (u ''M'')), (''active'', VBool True)]] \<rparr>),
     (''information_team'', \<lparr> tcols = [''id'', ''name'', ''city'', ''province'', ''president'',
                                      ''founded_year'', ''stadium''],
        trows = [] \<rparr>)]"

definition demo_encode :: "ustr \<Rightarrow> error + real list" where
  "demo_encode question = Inr [1, 0]"


text \<open>
  Three rows of the corpus: an embedding shorter than the query vector, one of the same
  length, and one holding an element that is not a number.
\<close>

definition doc_short :: chunk where
  "doc_short = \<lparr> source_table = Some (u ''players''), source_id = Some (VInt 7),
     content = Some (u ''Jos'' @ [0xE9] @ u '' juega como defensa.''), embedding = EList [Num 1] \<rparr>"

definition doc_far :: chunk where
  "doc_far = \<lparr> source_table = Some (u ''teams''), source_id = Some (VInt 3),
     content = Some (u ''Equipo de Madrid.''), embedding = EList [Num 4, Num 3] \<rparr>"

definition doc_bad :: chunk where
  "doc_bad = \<lparr> source_table = Some (u ''teams''), source_id = None,
     content = None, embedding = EList [Num 1, NotNum] \<rparr>"

text \<open>
  Two more rows: one whose content is a single space, and one with the content of the
  specification's example.
\<close>

definition doc_blank :: chunk where
  "doc_blank = \<lparr> source_table = Some (u ''players''), source_id = Some (VInt 8),
     content = Some [0x20], embedding = EList [Num 1, Num 0] \<rparr>"

definition messi_text :: ustr where
  "messi_text = u ''Messi gan'' @ [0xF3] @ u '' el Bal'' @ [0xF3] @ u ''n de Oro. Fue un a''
     @ [0xF1] @ u ''o hist'' @ [0xF3] @ u ''rico.''"

definition doc_messi :: chunk where
  "doc_messi = \<lparr> source_table = Some (u ''players''), source_id = Some (VInt 10),
     content = Some messi_text, embedding = EList [Num 1, Num 0] \<rparr>"

section \<open>Properties of the text functions\<close>

lemma set_lower_from: "set (lower_from U seen s) \<subseteq> (\<Union>c \<in> set s. set (lower_out U c))"
  by (induction s arbitrary: seen) (auto simp: lower_out_def)

lemma set_str_lower: "e \<in> set (str_lower U s) \<Longrightarrow> \<exists>c \<in> set s. e \<in> set (lower_out U c)"
  using set_lower_from [of U "[]" s] by (auto simp: str_lower_def)

lemma set_canon_insert: "set (canon_insert U c s) = insert c (set s)"
  by (induction s) auto

lemma set_canon_order: "set (canon_order U s) = set s"
  by (induction s) (auto simp: canon_order_def set_canon_insert)

lemma set_nfd: "d \<in> set (nfd U s) \<Longrightarrow> \<exists>c \<in> set s. d \<in> set (canon_decomp U c)"
  by (auto simp: nfd_def set_canon_order)

lemma set_strip: "set (strip s) \<subseteq> set s"
  unfolding strip_def by (auto dest!: set_dropWhileD)

text \<open>Every character of a normalized text comes out of a decomposition and is no mark.\<close>

lemma set_normalize_text:
  assumes "d \<in> set (normalize_text U t)"
  shows "\<not> is_mn U d \<and> (\<exists>c \<in> set t. \<exists>l \<in> set (lower_out U c). d \<in> set (canon_decomp U l))"
proof -
  from assms have "d \<in> set (filter (\<lambda>c. \<not> is_mn U c) (nfd U (str_lower U t)))"
    unfolding normalize_text_def using set_strip by blast
  then have m: "\<not> is_mn U d" and "d \<in> set (nfd U (str_lower U t))" by auto
  then obtain l where "l \<in> set (str_lower U t)" "d \<in> set (canon_decomp U l)"
    using set_nfd by blast
  then show ?thesis using m set_str_lower by blast
qed

lemma lower_from_fixed:
  "\<forall>c \<in> set s. c \<noteq> 0x3A3 \<and> to_lower U c = [c] \<Longrightarrow> lower_from U seen s = s"
  by (induction s arbitrary: seen) auto

lemma decomp_fixed: "\<forall>c \<in> set s. canon_decomp U c = [c] \<Longrightarrow> concat (map (canon_decomp U) s) = s"
  by (induction s) auto

lemma canon_order_starters: "\<forall>c \<in> set s. comb_class U c = 0 \<Longrightarrow> canon_order U s = s"
proof (induction s)
  case Nil
  then show ?case by (simp add: canon_order_def)
next
  case (Cons c s)
  then have "canon_order U s = s" by simp
  moreover have "comb_class U c = 0" using Cons.prems by simp
  ultimately show ?case by (cases s) (simp_all add: canon_order_def)
qed

text \<open>A stripped text starts with no whitespace, so stripping it again changes nothing.\<close>

lemma dropWhile_strip: "dropWhile py_isspace (strip s) = strip s"
proof -
  define a where "a = dropWhile py_isspace s"
  define b where "b = dropWhile py_isspace (rev a)"
  have s: "strip s = rev b" by (simp add: strip_def a_def b_def)
  have "rev a = takeWhile py_isspace (rev a) @ b" by (simp add: b_def)
  then have a: "a = rev b @ rev (takeWhile py_isspace (rev a))"
    by (metis rev_append rev_rev_ident)
  show ?thesis
  proof (cases "rev b")
    case Nil
    then show ?thesis by (simp add: s)
  next
    case (Cons x xs)
    then have "hd a = x" using a by (metis append_Cons list.sel(1))
    moreover have "a \<noteq> []" using a Cons by auto
    ultimately have "\<not> py_isspace x" unfolding a_def using hd_dropWhile by metis
    then show ?thesis by (simp add: s Cons)
  qed
qed

lemma strip_idem: "strip (strip s) = strip s"
proof -
  have "strip (strip s) = rev (dropWhile py_isspace (rev (strip s)))"
    unfolding strip_def [of "strip s"] by (simp only: dropWhile_strip)
  also have "\<dots> = strip s" by (simp add: strip_def)
  finally show ?thesis .
qed

subsection \<open>The fragment is stable\<close>

lemma latin_table_ok:
  "\<forall>(c, ds) \<in> set latin_decomp_table. 0xC0 \<le> c \<and> c \<le> 0xFF \<and>
     (\<forall>d \<in> set ds. (d < 0xC0 \<or> 0xFF < d) \<and>
        (latin_lower c = [c] \<longrightarrow> latin_mn d \<or> (latin_lower d = [d] \<and> d \<noteq> 0x3A3)))"
  by (simp add: latin_decomp_table_def latin_lower_def latin_mn_def)

lemma latin_table_hit:
  assumes "map_of latin_decomp_table c = Some ds"
  shows "\<forall>d \<in> set ds. map_of latin_decomp_table d = None \<and>
           (latin_lower c = [c] \<longrightarrow> latin_mn d \<or> (latin_lower d = [d] \<and> d \<noteq> 0x3A3))"
proof
  fix d assume d: "d \<in> set ds"
  from assms have "(c, ds) \<in> set latin_decomp_table" by (rule map_of_SomeD)
  with latin_table_ok d have ok: "(d < 0xC0 \<or> 0xFF < d) \<and>
        (latin_lower c = [c] \<longrightarrow> latin_mn d \<or> (latin_lower d = [d] \<and> d \<noteq> 0x3A3))"
    by blast
  have "map_of latin_decomp_table d = None"
  proof (cases "map_of latin_decomp_table d")
    case (Some es)
    then have "(d, es) \<in> set latin_decomp_table" by (rule map_of_SomeD)
    with latin_table_ok have "0xC0 \<le> d \<and> d \<le> 0xFF" by blast
    with ok show ?thesis by simp
  qed simp
  with ok show "map_of latin_decomp_table d = None \<and>
           (latin_lower c = [c] \<longrightarrow> latin_mn d \<or> (latin_lower d = [d] \<and> d \<noteq> 0x3A3))" by simp
qed

lemma latin_decomp_full: "d \<in> set (latin_decomp c) \<Longrightarrow> latin_decomp d = [d]"
  unfolding latin_decomp_def using latin_table_hit [of c]
  by (auto split: option.splits)

lemma latin_lower_out:
  "l \<in> set (lower_out latin_ucd c) \<Longrightarrow> latin_lower l = [l] \<and> l \<noteq> 0x3A3"
  unfolding lower_out_def latin_ucd_def latin_lower_def
  by (auto split: if_splits)

lemma latin_ucd_stable: "ucd_stable latin_ucd"
proof -
  have "d \<noteq> 0x3A3 \<and> latin_lower d = [d]"
    if l: "l \<in> set (lower_out latin_ucd c)" and d: "d \<in> set (latin_decomp l)" and m: "\<not> latin_mn d"
    for c l d
  proof (cases "map_of latin_decomp_table l")
    case None
    then have "d = l" using d by (simp add: latin_decomp_def)
    then show ?thesis using latin_lower_out [OF l] by simp
  next
    case (Some ds)
    then have "d \<in> set ds" using d by (simp add: latin_decomp_def)
    then show ?thesis using latin_table_hit [OF Some] latin_lower_out [OF l] m by blast
  qed
  then show ?thesis
    unfolding ucd_stable_def using latin_decomp_full by (simp add: latin_ucd_def)
qed

lemmas latin_eval = normalize_text_def strip_def nfd_def canon_order_def str_lower_def latin_ucd_def
  latin_lower_def latin_decomp_def latin_decomp_table_def latin_class_def latin_mn_def py_isspace_def
  u_def

lemma normalize_jose: "normalize_text latin_ucd (u ''  Jos'' @ [0xC9] @ u '' X '') = u ''jose x''"
  by (simp add: latin_eval)

subsection \<open>C9: the normalizer applied twice\<close>

text \<open>
  C9 as the specification states it: for every text, normalizing twice equals normalizing
  once. It fails where a spacing mark of non-zero combining class follows a mark of category
  Mn and class 0: the musical augmentation dot (class 226), the combining grapheme joiner
  (Mn, class 0) and the Hangul single dot tone mark (class 224), in this order, are in
  canonical order; the first pass removes the joiner, and the second pass reorders the two
  marks that are now adjacent.
\<close>

theorem normalize_not_idempotent:
  "normalize_text latin_ucd (normalize_text latin_ucd [0x1D16D, 0x34F, 0x302E])
     \<noteq> normalize_text latin_ucd [0x1D16D, 0x34F, 0x302E]"
  by (simp add: latin_eval)

text \<open>
  C9, amended: on stable Unicode tables, normalizing twice equals normalizing once for every
  text whose normalized form holds only starters (characters of combining class 0), which
  is every text without a spacing mark of non-zero combining class.
\<close>

theorem normalize_idempotent_on_starters:
  assumes st: "ucd_stable U"
    and cl: "\<forall>d \<in> set (normalize_text U t). comb_class U d = 0"
  shows "normalize_text U (normalize_text U t) = normalize_text U t"
proof -
  define r where "r = normalize_text U t"
  have chars: "\<not> is_mn U d \<and> d \<noteq> 0x3A3 \<and> to_lower U d = [d] \<and> canon_decomp U d = [d]"
    if "d \<in> set r" for d
  proof -
    from that obtain c l where m: "\<not> is_mn U d" and "c \<in> set t" and l: "l \<in> set (lower_out U c)"
      and d: "d \<in> set (canon_decomp U l)"
      unfolding r_def using set_normalize_text by blast
    from st l d m have "d \<noteq> 0x3A3 \<and> to_lower U d = [d]" unfolding ucd_stable_def by blast
    moreover from st d have "canon_decomp U d = [d]" unfolding ucd_stable_def by blast
    ultimately show ?thesis using m by simp
  qed
  have 1: "str_lower U r = r" unfolding str_lower_def using chars by (intro lower_from_fixed) blast
  have 2: "concat (map (canon_decomp U) r) = r" using chars by (intro decomp_fixed) blast
  have 3: "canon_order U r = r" using cl unfolding r_def by (intro canon_order_starters)
  have 4: "filter (\<lambda>c. \<not> is_mn U c) r = r" using chars by (simp add: filter_id_conv)
  have 5: "strip r = r" unfolding r_def normalize_text_def by (rule strip_idem)
  have "normalize_text U r = r"
    unfolding normalize_text_def [of U r] nfd_def by (simp only: 1 2 3 4 5)
  then show ?thesis by (simp add: r_def)
qed

theorem normalize_idempotent_on_starters_witness:
  "ucd_stable latin_ucd \<and>
   list_all (\<lambda>d. comb_class latin_ucd d = 0)
     (normalize_text latin_ucd (u ''  Jos'' @ [0xC9] @ u '' X '')) \<and>
   normalize_text latin_ucd (normalize_text latin_ucd (u ''  Jos'' @ [0xC9] @ u '' X ''))
     = normalize_text latin_ucd (u ''  Jos'' @ [0xC9] @ u '' X '')"
proof -
  have c: "\<forall>d \<in> set (normalize_text latin_ucd (u ''  Jos'' @ [0xC9] @ u '' X '')). comb_class latin_ucd d = 0"
    unfolding normalize_jose by (simp add: u_def latin_ucd_def latin_class_def)
  show ?thesis
    using latin_ucd_stable c normalize_idempotent_on_starters [OF latin_ucd_stable c]
    by (simp add: list_all_iff)
qed

section \<open>The superlative vocabulary and the normalized question\<close>





lemma victorias: "normalize_text latin_ucd (u ''Victorias '' @ [0xC1] @ u ''rbitro'') = u ''victorias arbitro''"
  by (simp add: latin_eval)




section \<open>Evaluation on the example data\<close>

lemmas store_eval = db_store_def db_run_def demo_db_def bind_err_def getitem_def order_key_def
  name_or_unknown_def ret_def val_lower_def val_normalize_def

lemma u_Cons_not_Nil: "u (c # s) \<noteq> []"
  by (simp add: u_def)

















subsection \<open>C1: the capacity of the largest stadium\<close>

lemma capacidad_normalized: "normalize_text latin_ucd (u ''capacidad estadio'') = u ''capacidad estadio''"
  by (simp add: latin_eval)
lemma capacidad_lower: "str_lower latin_ucd (u ''capacidad estadio'') = u ''capacidad estadio''"
  by (simp add: latin_eval)
lemma capacidad_lookup: "stat_lookup (u ''capacidad estadio'') = Some (u ''capacidad estadio'', ''stadiums'', ''capacity'', u ''capacidad del estadio'')"
  by (simp add: stat_lookup_def STAT_MAP_def u_def sublist_Cons_right)

lemma capacidad_top_entity: "get_top_entity latin_ucd (db_store demo_db []) (u ''capacidad estadio'') = Inl StoreError"
  by (simp add: get_top_entity_def capacidad_lower capacidad_lookup store_eval)

text \<open>
  Whatever the store: once the question is routed to the stadiums table, the resolver
  raises when the store rejects the request for \<^verbatim>\<open>player_id\<close>, and also when the store
  answers with a row that has no such key.
\<close>

lemma stadium_lookup_raises:
  assumes "stat_lookup (str_lower U q) = Some (k, ''stadiums'', col, label)"
  shows "run S (Query ''stadiums'' [''player_id'', col] None (Some col) (Some 1)) = Inl e
           \<Longrightarrow> get_top_entity U S q = Inl e"
    and "run S (Query ''stadiums'' [''player_id'', col] None (Some col) (Some 1)) = Inr (r # rs)
           \<Longrightarrow> map_of r ''player_id'' = None
           \<Longrightarrow> get_top_entity U S q = Inl (KeyError ''player_id'')"
  using assms by (simp_all add: get_top_entity_def bind_err_def getitem_def)

text \<open>
  C1 says that the question "capacidad estadio", with a non-empty stadiums table, is
  answered with the capacity of the largest stadium. The resolver asks every table,
  stadiums too, for the column \<^verbatim>\<open>player_id\<close>; the stadiums table has the columns id, name,
  city, capacity and year_construction, the store rejects the request, and the exception
  leaves \<^verbatim>\<open>chat\<close>.
\<close>

theorem capacidad_estadio_raises:
  "chat latin_ucd demo_encode (db_store demo_db []) (u ''capacidad estadio'') = Inl StoreError"
  by (simp add: chat_def capacidad_normalized capacidad_top_entity bind_err_def)

section \<open>The resolution chain\<close>
















section \<open>Retrieval\<close>

lemma score_rows_mem:
  "(c, s) \<in> set (score_rows qvec t rows) \<Longrightarrow>
     c \<in> set rows \<and> (\<exists>emb. embedding c = EList emb \<and> emb \<noteq> [] \<and>
        cosine_similarity qvec emb = Inr s \<and> t \<le> s)"
  by (induction rows) (auto split: emb.splits sum.splits if_splits)

lemma score_rows_complete:
  "c \<in> set rows \<Longrightarrow> embedding c = EList emb \<Longrightarrow> emb \<noteq> [] \<Longrightarrow>
     cosine_similarity qvec emb = Inr s \<Longrightarrow> t \<le> s \<Longrightarrow> (c, s) \<in> set (score_rows qvec t rows)"
  by (induction rows) (auto split: emb.splits sum.splits)

lemma length_score_rows: "length (score_rows qvec t rows) \<le> length rows"
  by (induction rows) (auto split: emb.splits sum.splits)

lemma set_slice_to: "set (slice_to k xs) \<subseteq> set xs"
  by (auto simp: slice_to_def dest: in_set_takeD)


lemma slice_to_all: "int (length xs) \<le> k \<Longrightarrow> slice_to k xs = xs"
  by (simp add: slice_to_def)


lemma sqrt_25: "sqrt 25 = 5"
  by (rule real_sqrt_unique) simp_all

lemmas retrieve_eval = bind_err_def cosine_similarity_def norm_or_eps_def sqrt_25

lemma cos_short: "cosine_similarity [1, 0] [Num 1] = Inr 1"
  by (simp add: retrieve_eval)

lemma cos_far: "cosine_similarity [1, 0] [Num 4, Num 3] = Inr (4 / 5)"
  by (simp add: retrieve_eval)

lemma cos_bad: "cosine_similarity [1, 0] [Num 1, NotNum] = Inl TypeError"
  by (simp add: retrieve_eval)

lemma retrieve_demo:
  "retrieve_context demo_encode (db_store demo_db [doc_bad, doc_far, doc_short]) [] 5 (7 / 10)
     = Inr [(doc_short, 1), (doc_far, 4 / 5)]"
  by (simp add: retrieve_context_def bind_err_def demo_encode_def db_store_def slice_to_def
      cos_short cos_far cos_bad doc_short_def doc_far_def doc_bad_def)

text \<open>
  C3 says that a row whose embedding has another length than the query vector is skipped.
  The guard skips a missing or empty embedding only: with a query vector of two
  components, a row whose embedding has one component is scored over the common prefix and
  returned.
\<close>

theorem short_embedding_is_scored:
  "demo_encode [] = Inr [1, 0] \<and> embedding doc_short = EList [Num 1] \<and>
   retrieve_context demo_encode (db_store demo_db [doc_short]) [] 5 (7 / 10) = Inr [(doc_short, 1)]"
  by (simp add: retrieve_context_def bind_err_def demo_encode_def db_store_def slice_to_def
      cos_short doc_short_def)

text \<open>
  C3, amended: every chunk that \<^verbatim>\<open>retrieve_context\<close> returns has an embedding that is a
  non-empty list, and its score is the similarity of the query vector and that list, at
  least the threshold; rows with a missing or empty embedding, or one that makes the
  similarity raise, are never returned. And when \<open>k\<close> is at least the size of the corpus,
  every row with a non-empty embedding whose similarity is at least the threshold is
  returned, whatever the length of the embedding.
\<close>

theorem retrieve_context_members:
  "(retrieve_context E S question k t = Inr res \<and> (c, s) \<in> set res \<longrightarrow>
      (\<exists>emb qvec. embedding c = EList emb \<and> emb \<noteq> [] \<and> E question = Inr qvec \<and>
         cosine_similarity qvec emb = Inr s \<and> t \<le> s)) \<and>
   (E question = Inr qvec \<and> corpus S = Inr rows \<and> int (length rows) \<le> k \<and> c \<in> set rows \<and>
    embedding c = EList emb \<and> emb \<noteq> [] \<and> cosine_similarity qvec emb = Inr s \<and> t \<le> s \<longrightarrow>
      (\<exists>res. retrieve_context E S question k t = Inr res \<and> (c, s) \<in> set res))"
proof (intro conjI impI)
  assume h: "retrieve_context E S question k t = Inr res \<and> (c, s) \<in> set res"
  then obtain qv rows where q: "E question = Inr qv" and "corpus S = Inr rows"
    and res: "res = slice_to k (sort_key (\<lambda>x. - snd x) (score_rows qv t rows))"
    by (auto simp: retrieve_context_def bind_err_def split: sum.splits)
  with h have "(c, s) \<in> set (score_rows qv t rows)"
    using set_slice_to [of k "sort_key (\<lambda>x. - snd x) (score_rows qv t rows)"] by auto
  with q show "\<exists>emb qvec. embedding c = EList emb \<and> emb \<noteq> [] \<and> E question = Inr qvec \<and>
         cosine_similarity qvec emb = Inr s \<and> t \<le> s"
    using score_rows_mem by blast
next
  assume h: "E question = Inr qvec \<and> corpus S = Inr rows \<and> int (length rows) \<le> k \<and> c \<in> set rows \<and>
    embedding c = EList emb \<and> emb \<noteq> [] \<and> cosine_similarity qvec emb = Inr s \<and> t \<le> s"
  then have m: "(c, s) \<in> set (score_rows qvec t rows)" by (intro score_rows_complete) auto
  have "int (length (sort_key (\<lambda>x. - snd x) (score_rows qvec t rows))) \<le> k"
    using h length_score_rows [of qvec t rows] by simp
  then have "slice_to k (sort_key (\<lambda>x. - snd x) (score_rows qvec t rows))
      = sort_key (\<lambda>x. - snd x) (score_rows qvec t rows)" by (rule slice_to_all)
  with h m show "\<exists>res. retrieve_context E S question k t = Inr res \<and> (c, s) \<in> set res"
    by (simp add: retrieve_context_def bind_err_def)
qed

text \<open>
  C3, amended, on a corpus of three rows: the row with an element that is no number is
  skipped, the other two are returned, the one with the shorter embedding too.
\<close>

theorem retrieve_context_members_witness:
  "retrieve_context demo_encode (db_store demo_db [doc_bad, doc_far, doc_short]) [] 5 (7 / 10)
     = Inr [(doc_short, 1), (doc_far, 4 / 5)] \<and>
   (doc_far, 4 / 5) \<in> set [(doc_short, 1), (doc_far, 4 / 5 :: real)] \<and>
   (\<exists>emb qvec. embedding doc_far = EList emb \<and> emb \<noteq> [] \<and> demo_encode [] = Inr qvec \<and>
      cosine_similarity qvec emb = Inr (4 / 5) \<and> (7 / 10 :: real) \<le> 4 / 5) \<and>
   int (length [doc_short]) \<le> 5 \<and> cosine_similarity [1, 0] [Num 1] = Inr 1 \<and>
   (\<exists>res. retrieve_context demo_encode (db_store demo_db [doc_short]) [] 5 (7 / 10) = Inr res \<and>
      (doc_short, 1) \<in> set res)"
proof -
  have a: "retrieve_context demo_encode (db_store demo_db [doc_bad, doc_far, doc_short]) [] 5 (7 / 10)
     = Inr [(doc_short, 1), (doc_far, 4 / 5)]" by (rule retrieve_demo)
  have b: "(doc_far, 4 / 5) \<in> set [(doc_short, 1), (doc_far, 4 / 5 :: real)]" by simp
  have c: "\<exists>emb qvec. embedding doc_far = EList emb \<and> emb \<noteq> [] \<and> demo_encode [] = Inr qvec \<and>
      cosine_similarity qvec emb = Inr (4 / 5) \<and> (7 / 10 :: real) \<le> 4 / 5"
    using retrieve_context_members [where E = demo_encode
        and S = "db_store demo_db [doc_bad, doc_far, doc_short]" and question = "[]" and k = 5
        and t = "7 / 10" and res = "[(doc_short, 1), (doc_far, 4 / 5)]" and c = doc_far
        and s = "4 / 5"] a b
    by blast
  have d: "demo_encode [] = Inr [1, 0] \<and> corpus (db_store demo_db [doc_short]) = Inr [doc_short] \<and>
      int (length [doc_short]) \<le> 5 \<and> doc_short \<in> set [doc_short] \<and>
      embedding doc_short = EList [Num 1] \<and> [Num 1] \<noteq> [] \<and>
      cosine_similarity [1, 0] [Num 1] = Inr 1 \<and> (7 / 10 :: real) \<le> 1"
    by (simp add: demo_encode_def db_store_def doc_short_def cos_short)
  have e: "\<exists>res. retrieve_context demo_encode (db_store demo_db [doc_short]) [] 5 (7 / 10) = Inr res \<and>
      (doc_short, 1) \<in> set res"
    using retrieve_context_members [where E = demo_encode and S = "db_store demo_db [doc_short]"
        and question = "[]" and k = 5 and t = "7 / 10" and c = doc_short and s = 1
        and qvec = "[1, 0]" and rows = "[doc_short]" and emb = "[Num 1]"] d
    by blast
  from a b c d e show ?thesis by simp
qed





section \<open>Matching of names and phrases\<close>

text \<open>
  The phrase "tarjetas amarillas" stands before the referees' phrase that begins with it,
  so every question that contains the referees' phrase is routed to the players' table.
\<close>

lemma referee_phrase_routes_to_stats:
  assumes "sublist (u ''tarjetas amarillas '' @ [0xE1] @ u ''rbitro'') q"
  shows "\<exists>k c l. stat_lookup q = Some (k, ''stats'', c, l)"
proof -
  have "sublist (u ''tarjetas amarillas'') (u ''tarjetas amarillas '' @ [0xE1] @ u ''rbitro'')"
    by (simp add: u_def sublist_Cons_right)
  with assms have "sublist (u ''tarjetas amarillas'') q"
    using sublist_order.order_trans by blast
  then show ?thesis
    by (simp add: stat_lookup_def STAT_MAP_def)
qed

lemma amarillas_lower:
  "str_lower latin_ucd (u ''tarjetas amarillas '' @ [0xE1] @ u ''rbitro'')
     = u ''tarjetas amarillas '' @ [0xE1] @ u ''rbitro''"
  by (simp add: latin_eval)

lemma amarillas_lookup:
  "stat_lookup (u ''tarjetas amarillas '' @ [0xE1] @ u ''rbitro'')
     = Some (u ''tarjetas amarillas'', ''stats'', ''yellow_card'', u ''tarjetas amarillas'')"
  by (simp add: stat_lookup_def STAT_MAP_def u_def sublist_Cons_right)

text \<open>
  C4 says that a question containing the referees' phrase for yellow cards is routed to
  the column yellow_cards of referee_stats. On that very phrase the first entry found is
  the players' "tarjetas amarillas", and the answer names the player with most yellow cards.
\<close>

theorem referee_yellow_cards_misrouted:
  "stat_lookup (str_lower latin_ucd (u ''tarjetas amarillas '' @ [0xE1] @ u ''rbitro''))
     = Some (u ''tarjetas amarillas'', ''stats'', ''yellow_card'', u ''tarjetas amarillas'') \<and>
   get_top_entity latin_ucd (db_store demo_db []) (u ''tarjetas amarillas '' @ [0xE1] @ u ''rbitro'')
     = Inr (Some (u ''El jugador con m'' @ [0xE1] @ u ''s tarjetas amarillas es Jos'' @ [0xE9]
         @ u '', con 9 tarjetas amarillas.''))"
  unfolding get_top_entity_def amarillas_lower amarillas_lookup Let_def
  by (simp add: store_eval str_of_int_def u_def)

lemma jose_normalized: "normalize_text latin_ucd (u ''Jos'' @ [0xE9]) = u ''jose''"
  by (simp add: latin_eval)

lemma jose_lower: "str_lower latin_ucd (u ''jose'') = u ''jose''"
  by (simp add: latin_eval)

lemma atletico_normalized:
  "normalize_text latin_ucd (u ''Atl'' @ [0xE9] @ u ''tico'') = u ''atletico''"
  by (simp add: latin_eval)

lemma atletico_twice: "normalize_text latin_ucd (u ''atletico'') = u ''atletico''"
  by (simp add: latin_eval)

text \<open>
  C5 says that every matcher compares normalized names, so that an entity whose stored name
  has a diacritic still matches. \<^verbatim>\<open>get_player_info\<close> lowercases the stored name only: the
  question that is the player's very name, normalized by \<^verbatim>\<open>chat\<close>, does not match him,
  while \<^verbatim>\<open>get_team_info\<close>, which normalizes both sides, matches an accented team name.
\<close>

theorem accented_player_not_matched:
  "get_player_info latin_ucd (db_store demo_db []) (normalize_text latin_ucd (u ''Jos'' @ [0xE9]))
     = Inr None \<and>
   get_team_info latin_ucd (db_store demo_db []) (normalize_text latin_ucd (u ''Atl'' @ [0xE9] @ u ''tico''))
     = Inr (Some (u ''Equipo Atl'' @ [0xE9] @ u ''tico de Madrid (Madrid), fundado en 1903, estadio Metropolitano.''))"
proof -
  have p: "get_player_info latin_ucd (db_store demo_db []) (u ''jose'') = Inr None"
    unfolding get_player_info_def jose_lower Let_def
    by (simp add: store_eval latin_eval sublist_Cons_right)
  have t: "get_team_info latin_ucd (db_store demo_db []) (u ''atletico'')
     = Inr (Some (u ''Equipo Atl'' @ [0xE9] @ u ''tico de Madrid (Madrid), fundado en 1903, estadio Metropolitano.''))"
    unfolding get_team_info_def atletico_twice Let_def
    by (simp add: store_eval latin_eval sublist_Cons_right str_of_int_def)
  show ?thesis unfolding jose_normalized atletico_normalized using p t by simp
qed

section \<open>The extractive answer\<close>

lemma full_stop_no_space: "\<not> py_isspace 46"
  by (simp add: py_isspace_def)

lemma dropWhile_id_iff: "dropWhile P xs = xs \<longleftrightarrow> xs = [] \<or> \<not> P (hd xs)"
proof (cases xs)
  case Nil
  then show ?thesis by simp
next
  case (Cons y ys)
  have "dropWhile P ys \<noteq> y # ys"
  proof
    assume "dropWhile P ys = y # ys"
    then have "length (dropWhile P ys) = Suc (length ys)" by simp
    moreover have "length (dropWhile P ys) \<le> length ys" by (rule length_dropWhile_le)
    ultimately show False by simp
  qed
  with Cons show ?thesis by simp
qed

lemma strip_Nil_iff: "strip s = [] \<longleftrightarrow> (\<forall>c \<in> set s. py_isspace c)"
proof
  assume "strip s = []"
  then have a: "\<forall>c \<in> set (dropWhile py_isspace s). py_isspace c"
    by (simp add: strip_def dropWhile_eq_Nil_conv)
  have "dropWhile py_isspace s = []"
  proof (rule ccontr)
    assume n: "dropWhile py_isspace s \<noteq> []"
    then have "\<not> py_isspace (hd (dropWhile py_isspace s))" by (rule hd_dropWhile)
    moreover have "hd (dropWhile py_isspace s) \<in> set (dropWhile py_isspace s)" using n by simp
    ultimately show False using a by blast
  qed
  then show "\<forall>c \<in> set s. py_isspace c" by (simp add: dropWhile_eq_Nil_conv)
next
  assume "\<forall>c \<in> set s. py_isspace c"
  then show "strip s = []" by (auto simp: strip_def dest: set_dropWhileD)
qed

lemma strip_keep:
  assumes x: "\<not> py_isspace x" and d: "dropWhile py_isspace (a @ x # b) = a @ x # b"
  shows "strip (a @ x # b) = a @ x # rev (dropWhile py_isspace (rev b))"
proof -
  have "dropWhile py_isspace (rev b @ x # rev a) = dropWhile py_isspace (rev b) @ x # rev a"
    using x by (simp add: dropWhile_append dropWhile_eq_Nil_conv)
  then show ?thesis by (simp add: strip_def d)
qed

lemma excerpt_not_blank: "strip (take 200 text @ u ''...'') \<noteq> []"
  by (simp add: strip_Nil_iff u_def py_isspace_def)

text \<open>The first line of a stripped text that has a full stop before any line feed.\<close>

lemma first_sentence:
  assumes t: "strip raw = pre @ 46 # rest" and p: "46 \<notin> set pre" and n: "10 \<notin> set pre"
  shows "\<exists>r. strip (takeWhile (\<lambda>x. x \<noteq> 10) (strip raw)) = pre @ 46 # r"
proof -
  have "dropWhile py_isspace (strip raw) = strip raw" by (rule dropWhile_strip)
  then have h: "\<not> py_isspace (hd (pre @ [46]))"
    unfolding t dropWhile_id_iff by (cases pre) auto
  have l: "takeWhile (\<lambda>x. x \<noteq> 10) (strip raw) = pre @ 46 # takeWhile (\<lambda>x. x \<noteq> 10) rest"
    unfolding t using n by (subst takeWhile_append2) auto
  have "dropWhile py_isspace (pre @ 46 # takeWhile (\<lambda>x. x \<noteq> 10) rest)
      = pre @ 46 # takeWhile (\<lambda>x. x \<noteq> 10) rest"
    unfolding dropWhile_id_iff using h by (cases pre) auto
  with full_stop_no_space show ?thesis unfolding l using strip_keep by blast
qed

lemma generate_answer_unfold:
  assumes "find has_content chunks = Some c" and "content c = Some raw"
  shows "generate_answer question chunks =
     (let text = strip raw;
          first_line = strip (takeWhile (\<lambda>c. c \<noteq> 10) text);
          sentence = (if 46 \<in> set first_line
                      then strip (takeWhile (\<lambda>c. c \<noteq> 46) first_line) @ [46]
                      else first_line);
          candidate = (if sentence = [] \<or> length sentence < 10
                       then (if length text > 200 then take 200 text @ u ''...'' else text)
                       else sentence)
      in if candidate = [] \<or> strip candidate = [] then not_found_msg else candidate)"
proof -
  from assms(1) have "chunks \<noteq> []" by auto
  then show ?thesis
    unfolding generate_answer_def by (simp only: assms if_False option.case)
qed

text \<open>
  C8, amended. Let the text be the content of the first chunk with non-empty content,
  stripped of surrounding whitespace, and let the excerpt be its first 200 characters
  followed by "..." when it is longer than 200, the fixed "not found" message when it is
  empty, and the text itself otherwise. If the text has a full stop before any line feed,
  \<open>pre\<close> being what comes before that full stop, \<^verbatim>\<open>generate_answer\<close> returns \<open>pre\<close>
  stripped and followed by a full stop when that has at least 10 characters, and the
  excerpt otherwise. If the first line has no full stop, it returns the stripped first line
  when that has at least 10 characters, and the excerpt otherwise.
\<close>

theorem generate_answer_cases:
  assumes f: "find has_content chunks = Some c" and r: "content c = Some raw"
  shows "let text = strip raw;
             first_line = strip (takeWhile (\<lambda>x. x \<noteq> 10) text);
             excerpt = (if 200 < length text then take 200 text @ u ''...''
                        else if text = [] then not_found_msg else text)
         in (text = pre @ 46 # rest \<and> 46 \<notin> set pre \<and> 10 \<notin> set pre \<longrightarrow>
               generate_answer question chunks =
                 (if 9 \<le> length (strip pre) then strip pre @ [46] else excerpt)) \<and>
            (46 \<notin> set first_line \<longrightarrow>
               generate_answer question chunks =
                 (if 10 \<le> length first_line then first_line else excerpt))"
proof -
  define tx where "tx = strip raw"
  define first_line where "first_line = strip (takeWhile (\<lambda>x. x \<noteq> 10) tx)"
  define excerpt where "excerpt = (if 200 < length tx then take 200 tx @ u ''...''
                        else if tx = [] then not_found_msg else tx)"
  define sentence where "sentence = (if 46 \<in> set first_line
      then strip (takeWhile (\<lambda>x. x \<noteq> 46) first_line) @ [46] else first_line)"
  define fb where "fb = (if length tx > 200 then take 200 tx @ u ''...'' else tx)"
  define candidate where "candidate = (if sentence = [] \<or> length sentence < 10 then fb else sentence)"
  have st: "strip tx = tx" unfolding tx_def by (rule strip_idem)
  have ex: "(if fb = [] \<or> strip fb = [] then not_found_msg else fb) = excerpt"
  proof (cases "200 < length tx")
    case True
    then have "fb = take 200 tx @ u ''...''" by (simp add: fb_def)
    moreover have "take 200 tx @ u ''...'' \<noteq> []" by (simp add: u_Cons_not_Nil)
    ultimately show ?thesis using True excerpt_not_blank [of tx]
      by (simp add: excerpt_def u_Cons_not_Nil)
  next
    case False
    then have "fb = tx" by (simp add: fb_def)
    then show ?thesis using False st by (simp add: excerpt_def)
  qed
  have g0: "generate_answer question chunks =
      (if candidate = [] \<or> strip candidate = [] then not_found_msg else candidate)"
    unfolding generate_answer_unfold [OF f r] candidate_def fb_def sentence_def first_line_def
      tx_def Let_def ..
  have g: "generate_answer question chunks =
      (if sentence = [] \<or> length sentence < 10 then excerpt
       else if strip sentence = [] then not_found_msg else sentence)"
  proof (cases "sentence = [] \<or> length sentence < 10")
    case True
    then have c: "candidate = fb" by (simp add: candidate_def)
    have "generate_answer question chunks = (if fb = [] \<or> strip fb = [] then not_found_msg else fb)"
      unfolding g0 c ..
    also have "\<dots> = excerpt" by (rule ex)
    finally show ?thesis using True by simp
  next
    case False
    then have c: "candidate = sentence" by (simp add: candidate_def)
    have "generate_answer question chunks =
        (if sentence = [] \<or> strip sentence = [] then not_found_msg else sentence)"
      unfolding g0 c ..
    then show ?thesis using False by auto
  qed
  have 1: "generate_answer question chunks =
      (if 9 \<le> length (strip pre) then strip pre @ [46] else excerpt)"
    if h: "tx = pre @ 46 # rest" "46 \<notin> set pre" "10 \<notin> set pre"
  proof -
    from h obtain r2 where fl: "first_line = pre @ 46 # r2"
      unfolding first_line_def tx_def using first_sentence by blast
    have "takeWhile (\<lambda>x. x \<noteq> 46) first_line = pre"
      unfolding fl using h(2) by (subst takeWhile_append2) auto
    then have s: "sentence = strip pre @ [46]" unfolding sentence_def fl by simp
    have "strip sentence \<noteq> []" unfolding s by (simp add: strip_Nil_iff full_stop_no_space)
    then show ?thesis unfolding g s by auto
  qed
  have 2: "generate_answer question chunks =
      (if 10 \<le> length first_line then first_line else excerpt)"
    if h: "46 \<notin> set first_line"
  proof -
    from h have s: "sentence = first_line" by (simp add: sentence_def)
    have "strip first_line = first_line" unfolding first_line_def by (rule strip_idem)
    then show ?thesis unfolding g s by auto
  qed
  have "(tx = pre @ 46 # rest \<and> 46 \<notin> set pre \<and> 10 \<notin> set pre \<longrightarrow>
          generate_answer question chunks =
            (if 9 \<le> length (strip pre) then strip pre @ [46] else excerpt)) \<and>
        (46 \<notin> set first_line \<longrightarrow>
          generate_answer question chunks =
            (if 10 \<le> length first_line then first_line else excerpt))"
    using 1 2 by blast
  then show ?thesis
    unfolding Let_def excerpt_def first_line_def tx_def .
qed

lemma messi_stripped:
  "strip messi_text = (u ''Messi gan'' @ [0xF3] @ u '' el Bal'' @ [0xF3] @ u ''n de Oro'')
     @ 46 # (u '' Fue un a'' @ [0xF1] @ u ''o hist'' @ [0xF3] @ u ''rico.'')"
  by (simp add: messi_text_def strip_def py_isspace_def u_def)

lemma messi_found: "find has_content [doc_bad, doc_messi] = Some doc_messi"
  by (simp add: has_content_def doc_bad_def doc_messi_def messi_text_def u_def)

lemma messi_pre_stripped:
  "strip (u ''Messi gan'' @ [0xF3] @ u '' el Bal'' @ [0xF3] @ u ''n de Oro'')
     = u ''Messi gan'' @ [0xF3] @ u '' el Bal'' @ [0xF3] @ u ''n de Oro''"
  by (simp add: strip_def py_isspace_def u_def)

text \<open>
  C8, amended, on the specification's example, behind a chunk without content: the answer
  is the first sentence of the content, up to and with its full stop.
\<close>

theorem generate_answer_cases_witness:
  "find has_content [doc_bad, doc_messi] = Some doc_messi \<and>
   content doc_messi = Some messi_text \<and>
   strip messi_text = (u ''Messi gan'' @ [0xF3] @ u '' el Bal'' @ [0xF3] @ u ''n de Oro'')
     @ 46 # (u '' Fue un a'' @ [0xF1] @ u ''o hist'' @ [0xF3] @ u ''rico.'') \<and>
   46 \<notin> set (u ''Messi gan'' @ [0xF3] @ u '' el Bal'' @ [0xF3] @ u ''n de Oro'') \<and>
   10 \<notin> set (u ''Messi gan'' @ [0xF3] @ u '' el Bal'' @ [0xF3] @ u ''n de Oro'') \<and>
   generate_answer [] [doc_bad, doc_messi]
     = u ''Messi gan'' @ [0xF3] @ u '' el Bal'' @ [0xF3] @ u ''n de Oro.''"
proof -
  have c: "content doc_messi = Some messi_text" by (simp add: doc_messi_def)
  have p: "46 \<notin> set (u ''Messi gan'' @ [0xF3] @ u '' el Bal'' @ [0xF3] @ u ''n de Oro'')"
    "10 \<notin> set (u ''Messi gan'' @ [0xF3] @ u '' el Bal'' @ [0xF3] @ u ''n de Oro'')"
    by (simp_all add: u_def)
  have l: "9 \<le> length (strip (u ''Messi gan'' @ [0xF3] @ u '' el Bal'' @ [0xF3] @ u ''n de Oro''))"
    unfolding messi_pre_stripped by (simp add: u_def)
  have "strip messi_text = (u ''Messi gan'' @ [0xF3] @ u '' el Bal'' @ [0xF3] @ u ''n de Oro'')
        @ 46 # (u '' Fue un a'' @ [0xF1] @ u ''o hist'' @ [0xF3] @ u ''rico.'') \<and>
      46 \<notin> set (u ''Messi gan'' @ [0xF3] @ u '' el Bal'' @ [0xF3] @ u ''n de Oro'') \<and>
      10 \<notin> set (u ''Messi gan'' @ [0xF3] @ u '' el Bal'' @ [0xF3] @ u ''n de Oro'')
      \<longrightarrow> generate_answer [] [doc_bad, doc_messi] =
        (if 9 \<le> length (strip (u ''Messi gan'' @ [0xF3] @ u '' el Bal'' @ [0xF3] @ u ''n de Oro''))
         then strip (u ''Messi gan'' @ [0xF3] @ u '' el Bal'' @ [0xF3] @ u ''n de Oro'') @ [46]
         else (if 200 < length (strip messi_text) then take 200 (strip messi_text) @ u ''...''
               else if strip messi_text = [] then not_found_msg else strip messi_text))"
    using generate_answer_cases [OF messi_found c,
        of "u ''Messi gan'' @ [0xF3] @ u '' el Bal'' @ [0xF3] @ u ''n de Oro''"
           "u '' Fue un a'' @ [0xF1] @ u ''o hist'' @ [0xF3] @ u ''rico.''" "[]"]
    unfolding Let_def by (rule conjunct1)
  with messi_stripped p have "generate_answer [] [doc_bad, doc_messi] =
        (if 9 \<le> length (strip (u ''Messi gan'' @ [0xF3] @ u '' el Bal'' @ [0xF3] @ u ''n de Oro''))
         then strip (u ''Messi gan'' @ [0xF3] @ u '' el Bal'' @ [0xF3] @ u ''n de Oro'') @ [46]
         else (if 200 < length (strip messi_text) then take 200 (strip messi_text) @ u ''...''
               else if strip messi_text = [] then not_found_msg else strip messi_text))"
    by blast
  with l have "generate_answer [] [doc_bad, doc_messi]
      = strip (u ''Messi gan'' @ [0xF3] @ u '' el Bal'' @ [0xF3] @ u ''n de Oro'') @ [46]"
    by (simp only: if_True)
  then have "generate_answer [] [doc_bad, doc_messi]
      = u ''Messi gan'' @ [0xF3] @ u '' el Bal'' @ [0xF3] @ u ''n de Oro.''"
    unfolding messi_pre_stripped by (simp add: u_def)
  with messi_found c messi_stripped p show ?thesis by blast
qed

text \<open>
  C8 says that when the candidate is empty the full text is returned if it has at most 200
  characters. For a chunk whose content is one space the candidate is empty and the text,
  stripped or not, has at most 200 characters; the answer is the fixed "not found" message.
\<close>

theorem blank_content_not_returned:
  "find has_content [doc_blank] = Some doc_blank \<and> content doc_blank = Some [0x20] \<and>
   generate_answer [] [doc_blank] = not_found_msg \<and>
   not_found_msg \<noteq> [0x20] \<and> not_found_msg \<noteq> []"
  by (simp add: generate_answer_def has_content_def doc_blank_def strip_def py_isspace_def
      not_found_msg_def u_def)

end
